theory Spec2Isabelle
  imports Main "HOL-Library.Multiset" "HOL-Library.Char_ord" "HOL-Library.List_Lexorder"
    "HOL-Library.AList"
begin

section \<open>Bytes, hexadecimal and decimal text\<close>

text \<open>
  Go's \<open>[]byte\<close> and \<open>string\<close> are both sequences of bytes; they are modelled as
  \<open>string\<close> (a list of 8-bit characters). Strings are compared bytewise, which is the
  lexicographic order on character lists.
\<close>

type_synonym bytes = string

definition hexdigit :: "nat \<Rightarrow> char" where
  "hexdigit n = (''0123456789abcdef'' ! (n mod 16))"

text \<open>\<open>hex.EncodeToString\<close>: two lower-case digits per byte, high nibble first.\<close>

fun hex_EncodeToString :: "bytes \<Rightarrow> string" where
  "hex_EncodeToString [] = []"
| "hex_EncodeToString (c # cs) =
     hexdigit (of_char c div 16) # hexdigit (of_char c mod 16) # hex_EncodeToString cs"

function digits10 :: "nat \<Rightarrow> string" where
  "digits10 n =
     (if n < 10 then [char_of (48 + n)] else digits10 (n div 10) @ [char_of (48 + n mod 10)])"
  by pat_completeness auto
termination
  by (relation "measure id") auto

text \<open>\<open>fmt.Sprintf("%d", n)\<close> for a signed integer.\<close>

definition fmt_d :: "int \<Rightarrow> string" where
  "fmt_d i = (if i < 0 then CHR ''-'' # digits10 (nat (- i)) else digits10 (nat i))"

text \<open>
  \<open>fmt.Sprintf("%c", b)\<close> for a byte \<open>b\<close>: the verb prints the Unicode code point
  \<open>b\<close> in UTF-8, one byte below 128 and two bytes from 128 on.
\<close>

definition fmt_c :: "char \<Rightarrow> string" where
  "fmt_c b =
     (let n = (of_char b :: nat)
      in if n < 128 then [b] else [char_of (192 + n div 64), char_of (128 + n mod 64)])"

text \<open>\<open>strings.HasPrefix\<close>, \<open>strings.HasSuffix\<close>, \<open>strings.TrimPrefix\<close>, \<open>strings.TrimSuffix\<close>.\<close>

definition HasPrefix :: "string \<Rightarrow> string \<Rightarrow> bool" where
  "HasPrefix s p = (take (length p) s = p)"

definition HasSuffix :: "string \<Rightarrow> string \<Rightarrow> bool" where
  "HasSuffix s p = (length p \<le> length s \<and> drop (length s - length p) s = p)"

definition TrimPrefix :: "string \<Rightarrow> string \<Rightarrow> string" where
  "TrimPrefix s p = (if HasPrefix s p then drop (length p) s else s)"

definition TrimSuffix :: "string \<Rightarrow> string \<Rightarrow> string" where
  "TrimSuffix s p = (if HasSuffix s p then take (length s - length p) s else s)"

section \<open>The layers package: tar headers, TarSum, TarFilesInfo\<close>

text \<open>
  \<open>tar.Header\<close> with the fields the package reads. \<open>ModTime\<close> is kept as its Unix
  second, the only view of it the code takes (\<open>ModTime.UTC().Unix()\<close> and
  \<open>ModTime.Unix()\<close> agree). The integer fields are only printed, never computed
  with, so they are \<open>int\<close>.
\<close>

record tar_Header =
  Name :: string
  Mode :: int
  Uid :: int
  Gid :: int
  Size :: int
  ModTime :: int
  Typeflag :: char
  Linkname :: string
  Uname :: string
  Gname :: string
  Devmajor :: int
  Devminor :: int

text \<open>
  One step of the tar reader as \<open>TarInfo.Load\<close> sees it: the header returned by
  \<open>reader.Next()\<close> and what \<open>io.Copy\<close> gets from the reader positioned at the entry:
  the bytes of the body and whether the copy ends in an error.
\<close>

record tar_entry =
  hdr :: tar_Header
  content :: bytes
  copy_fails :: bool

text \<open>
  A \<open>hash.Hash\<close> is modelled by the bytes written since the last \<open>Reset\<close>; \<open>Sum(nil)\<close>
  applies the digest function, which is a parameter \<open>H\<close> of the model
  (\<open>crypto/sha256\<close> in the program).
\<close>

record TarSum =
  seed :: bytes
  hashes :: "string list"
  sha :: bytes

definition NewTarSum :: "bytes \<Rightarrow> TarSum" where
  "NewTarSum sd = \<lparr>seed = sd, hashes = [], sha = []\<rparr>"

definition TypeDir :: char where "TypeDir = CHR ''5''"

definition headerStr :: "tar_Header \<Rightarrow> string" where
  "headerStr h =
     (let s0 = ''name'' @ Name h;
          s1 = (if Typeflag h = TypeDir \<and> \<not> HasSuffix s0 ''/'' then s0 @ ''/'' else s0)
      in s1 @ ''mode'' @ fmt_d (Mode h)
            @ ''uid'' @ fmt_d (Uid h)
            @ ''gid'' @ fmt_d (Gid h)
            @ ''size'' @ fmt_d (Size h)
            @ ''mtime'' @ fmt_d (ModTime h)
            @ ''typeflag'' @ fmt_c (Typeflag h)
            @ ''linkname'' @ Linkname h
            @ ''uname'' @ Uname h
            @ ''gname'' @ Gname h
            @ ''devmajor'' @ fmt_d (Devmajor h)
            @ ''devminor'' @ fmt_d (Devminor h))"

text \<open>
  \<open>TarSum.Append\<close>: the hash is reset, fed the header string and, for a positive size,
  the body; a failed copy resets it and feeds the header string alone.
\<close>

definition entry_written :: "tar_entry \<Rightarrow> bytes" where
  "entry_written e =
     (let hs = headerStr (hdr e)
      in if Size (hdr e) > 0
         then (if copy_fails e then hs else hs @ content e)
         else hs)"

definition Append :: "(bytes \<Rightarrow> bytes) \<Rightarrow> TarSum \<Rightarrow> tar_entry \<Rightarrow> TarSum" where
  "Append H t e =
     (let w = entry_written e
      in t\<lparr>sha := w, hashes := hashes t @ [hex_EncodeToString (H w)]\<rparr>)"

text \<open>
  \<open>TarSum.Compute\<close> sorts \<open>t.hashes\<close> in place, resets the hash, writes the seed and
  the sorted digests, and returns the text; the updated accumulator is returned with it.
\<close>

definition Compute :: "(bytes \<Rightarrow> bytes) \<Rightarrow> TarSum \<Rightarrow> string \<times> TarSum" where
  "Compute H t =
     (let hs = sort (hashes t);
          w = seed t @ concat hs
      in (''tarsum+sha256'' @ hex_EncodeToString (H w), t\<lparr>hashes := hs, sha := w\<rparr>))"

text \<open>\<open>TarFilesInfo\<close>: the headers in the order appended.\<close>

record TarFilesInfo =
  headers :: "tar_Header list"

definition NewTarFilesInfo :: TarFilesInfo where
  "NewTarFilesInfo = \<lparr>headers = []\<rparr>"

definition TarFilesInfo_Append :: "TarFilesInfo \<Rightarrow> tar_Header \<Rightarrow> TarFilesInfo" where
  "TarFilesInfo_Append t h = t\<lparr>headers := headers t @ [h]\<rparr>"

text \<open>JSON values as \<open>encoding/json\<close> sees the Go values handed to it.\<close>

datatype jv = JNull | JBool bool | JNum int | JStr string | JArr "jv list"
  | JObj "(string \<times> jv) list"

definition filetype_of :: "char \<Rightarrow> string" where
  "filetype_of c =
     (if c = CHR ''0'' \<or> c = CHR 0x00 then ''f''
      else if c = CHR ''1'' then ''l''
      else if c = CHR ''2'' then ''s''
      else if c = CHR ''3'' then ''c''
      else if c = CHR ''4'' then ''b''
      else if c = CHR ''5'' then ''d''
      else if c = CHR ''6'' then ''i''
      else if c = CHR ''7'' then ''t''
      else if c = CHR ''L'' \<or> c = CHR ''K'' \<or> c = CHR ''S'' then [c]
      else ''u'')"

text \<open>
  The loop of \<open>TarFilesInfo.Json\<close>: \<open>acc\<close> is \<open>tupleSlice\<close>, each header either
  \<open>continue\<close>s or appends one tuple.
\<close>

fun Json_loop :: "jv list \<Rightarrow> tar_Header list \<Rightarrow> jv list" where
  "Json_loop acc [] = acc"
| "Json_loop acc (h # hs) =
     (let filename = Name h;
          isDeleted = False;
          filename = (if filename = ''.'' then ''/'' else filename);
          filename = (if HasPrefix filename ''./''
                      then ''/'' @ TrimPrefix filename ''./'' else filename);
          (filename, isDeleted) =
             (if HasPrefix filename ''/.wh.''
              then (''/'' @ TrimPrefix filename ''/.wh.'', True)
              else (filename, isDeleted))
      in if HasPrefix filename ''/.wh.'' then Json_loop acc hs
         else Json_loop
                (acc @ [JArr [JStr filename, JStr (filetype_of (Typeflag h)), JBool isDeleted,
                              JNum (Size h), JNum (ModTime h), JNum (Mode h),
                              JNum (Uid h), JNum (Gid h)]])
                hs)"

text \<open>
  \<open>Json\<close> marshals the tuple slice; \<open>json.Marshal\<close> is a parameter (\<open>None\<close> is its
  error).
\<close>

definition Json :: "(jv \<Rightarrow> bytes option) \<Rightarrow> TarFilesInfo \<Rightarrow> bytes option" where
  "Json marshal t = marshal (JArr (Json_loop [] (headers t)))"

text \<open>
  \<open>TarInfo\<close> and \<open>TarInfo.Load\<close>. What \<open>gzip.NewReader\<close> and \<open>tar.NewReader\<close> make of
  the stored file is a parameter \<open>untar\<close>: the entries that successive calls of
  \<open>reader.Next()\<close> yield, and how the sequence ends, with \<open>io.EOF\<close> (\<open>None\<close>) or with
  another error (its message).
\<close>

record TarInfo =
  tarsum :: TarSum
  filesinfo :: TarFilesInfo
  tar_error :: "string option"

definition NewTarInfo :: "bytes \<Rightarrow> TarInfo" where
  "NewTarInfo sumSeed = \<lparr>tarsum = NewTarSum sumSeed, filesinfo = NewTarFilesInfo, tar_error = None\<rparr>"

fun Load_loop :: "(bytes \<Rightarrow> bytes) \<Rightarrow> TarInfo \<Rightarrow> tar_entry list \<Rightarrow> string option \<Rightarrow> TarInfo" where
  "Load_loop H t [] None = t"
| "Load_loop H t [] (Some msg) = t\<lparr>tar_error := Some msg\<rparr>"
| "Load_loop H t (e # es) fin =
     Load_loop H (t\<lparr>tarsum := Append H (tarsum t) e,
                     filesinfo := TarFilesInfo_Append (filesinfo t) (hdr e)\<rparr>) es fin"

definition Load ::
  "(bytes \<Rightarrow> bytes) \<Rightarrow> (bytes \<Rightarrow> tar_entry list \<times> string option) \<Rightarrow> TarInfo \<Rightarrow> bytes \<Rightarrow> TarInfo"
where
  "Load H untar t file = (case untar file of (es, fin) \<Rightarrow> Load_loop H t es fin)"

section \<open>The storage adapter and the path scheme\<close>

text \<open>
  Modelled from the spec: the path scheme of package \<open>registry/storage\<close>, which is not
  among the sources. The specification asks for one key per artifact and one per tag,
  deterministic and distinct; the keys are the constructors of a datatype.
\<close>

datatype key =
    ImageJsonPath string
  | ImageMarkPath string
  | ImageLayerPath string
  | ImageChecksumPath string
  | ImageAncestryPath string
  | ImageFilesPath string
  | ImageDiffPath string
  | RepoTagPath string string string
  | RepoJsonPath string string

datatype error = not_found | io_error | json_error

datatype storage_op = OpGet | OpPut | OpPutReader | OpSize | OpRemove

datatype event = Wrote key bytes | Removed key

text \<open>
  Modelled from the spec: the storage adapter (\<open>a.Storage\<close>), a key to bytes store whose
  operations answer with a result, \<open>not_found\<close> or \<open>io_error\<close>. Which operation fails
  with an I/O error on which key is the backend's doing and is a field of the state;
  an operation that fails leaves the blobs as they were. The journal lists the
  mutations in the order they were made.
\<close>

record storage =
  blobs :: "key \<rightharpoonup> bytes"
  faulty :: "storage_op \<Rightarrow> key \<Rightarrow> bool"
  journal :: "event list"

definition Storage_Get :: "storage \<Rightarrow> key \<Rightarrow> error + bytes" where
  "Storage_Get s k =
     (if faulty s OpGet k then Inl io_error
      else case blobs s k of None \<Rightarrow> Inl not_found | Some b \<Rightarrow> Inr b)"

definition Storage_Size :: "storage \<Rightarrow> key \<Rightarrow> error + int" where
  "Storage_Size s k =
     (if faulty s OpSize k then Inl io_error
      else case blobs s k of None \<Rightarrow> Inl not_found | Some b \<Rightarrow> Inr (int (length b)))"

definition Storage_Exists :: "storage \<Rightarrow> key \<Rightarrow> bool" where
  "Storage_Exists s k = (blobs s k \<noteq> None)"

definition Storage_Put :: "storage \<Rightarrow> key \<Rightarrow> bytes \<Rightarrow> storage \<times> error option" where
  "Storage_Put s k b =
     (if faulty s OpPut k then (s, Some io_error)
      else (s\<lparr>blobs := (blobs s)(k \<mapsto> b), journal := journal s @ [Wrote k b]\<rparr>, None))"

definition Storage_Remove :: "storage \<Rightarrow> key \<Rightarrow> storage \<times> error option" where
  "Storage_Remove s k =
     (if faulty s OpRemove k then (s, Some io_error)
      else (s\<lparr>blobs := (blobs s)(k := None), journal := journal s @ [Removed k]\<rparr>, None))"

text \<open>
  \<open>PutReader(key, stream, finalizer)\<close> persists the stream and then runs the finalizer
  over the bytes just written; the finalizer's result (the loaded accumulator) is
  returned with the state.
\<close>

definition Storage_PutReader ::
  "storage \<Rightarrow> key \<Rightarrow> bytes \<Rightarrow> (bytes \<Rightarrow> 'a) \<Rightarrow> storage \<times> (error + 'a)"
where
  "Storage_PutReader s k stream finalizer =
     (if faulty s OpPutReader k then (s, Inl io_error)
      else (s\<lparr>blobs := (blobs s)(k \<mapsto> stream), journal := journal s @ [Wrote k stream]\<rparr>,
            Inr (finalizer stream)))"

text \<open>
  Modelled from the spec: \<open>layers.StoreChecksum\<close>, \<open>layers.SetImageFilesCache\<close> and
  \<open>layers.GenerateAncestry\<close>, which are not among the sources. The first persists the
  header value verbatim under the checksum key, the second persists the listing under
  the files key. The third reads the parent's ancestry if the parent is non-empty,
  which must give a JSON array, prepends the image, and persists the array; without a
  parent it persists the array of the image alone; a failure to read the parent's
  ancestry is its error.
\<close>

definition StoreChecksum :: "storage \<Rightarrow> string \<Rightarrow> string \<Rightarrow> storage \<times> error option" where
  "StoreChecksum s imageID checksum = Storage_Put s (ImageChecksumPath imageID) checksum"

definition SetImageFilesCache :: "storage \<Rightarrow> string \<Rightarrow> bytes \<Rightarrow> storage \<times> error option" where
  "SetImageFilesCache s imageID filesJson = Storage_Put s (ImageFilesPath imageID) filesJson"

section \<open>The environment of a request\<close>

text \<open>
  The library functions the handlers call are fields of the environment:
  \<open>crypto/sha256\<close> (the digest of the bytes written), the gzip and tar readers,
  \<open>json.Marshal\<close> and \<open>json.Unmarshal\<close> (\<open>None\<close> is their error), the Unix second of
  \<open>time.Now()\<close>, and the order in which a \<open>range\<close> over a map with the given keys
  visits them, which Go leaves open.
\<close>

record env =
  sha256 :: "bytes \<Rightarrow> bytes"
  untar :: "bytes \<Rightarrow> tar_entry list \<times> string option"
  json_Marshal :: "jv \<Rightarrow> bytes option"
  json_Unmarshal :: "bytes \<Rightarrow> jv option"
  time_Now :: int
  range_order :: "string list \<Rightarrow> string list"

definition GenerateAncestry ::
  "env \<Rightarrow> storage \<Rightarrow> string \<Rightarrow> string \<Rightarrow> storage \<times> error option"
where
  "GenerateAncestry E s imageID parentID =
     (if parentID = [] then
        (case json_Marshal E (JArr [JStr imageID]) of
           None \<Rightarrow> (s, Some json_error)
         | Some data \<Rightarrow> Storage_Put s (ImageAncestryPath imageID) data)
      else
        (case Storage_Get s (ImageAncestryPath parentID) of
           Inl e \<Rightarrow> (s, Some e)
         | Inr parentAncestry \<Rightarrow>
             (case json_Unmarshal E parentAncestry of
                Some (JArr ancestry) \<Rightarrow>
                  (case json_Marshal E (JArr (JStr imageID # ancestry)) of
                     None \<Rightarrow> (s, Some json_error)
                   | Some data \<Rightarrow> Storage_Put s (ImageAncestryPath imageID) data)
              | _ \<Rightarrow> (s, Some json_error))))"

section \<open>Requests and responses\<close>

text \<open>
  A request as the handlers read it: the header map, the cookies \<open>net/http\<close> parsed, and
  what \<open>ioutil.ReadAll(r.Body)\<close> gives. The route variables (\<open>imageID\<close>, namespace,
  repository, tag) are arguments of the handlers.
\<close>

record request =
  req_headers :: "(string \<times> string list) list"
  req_cookies :: "(string \<times> string) list"
  req_body :: bytes
  req_body_fails :: bool

text \<open>
  \<open>a.response(w, data, status, headers)\<close> is not among the sources; a response is the
  status, the headers set on the writer followed by those handed over, and the data. A
  message built from \<open>err.Error()\<close> keeps the error as it is.
\<close>

datatype payload = Text string | TextErr string error | Flag bool | Data bytes

record response =
  status :: nat
  headers_out :: "(string \<times> string list) list"
  payload :: payload

definition EMPTY_HEADERS :: "(string \<times> string list) list" where
  "EMPTY_HEADERS = []"

definition respond ::
  "(string \<times> string list) list \<Rightarrow> payload \<Rightarrow> nat \<Rightarrow> (string \<times> string list) list \<Rightarrow> response"
where
  "respond w d st hs = \<lparr>status = st, headers_out = w @ hs, payload = d\<rparr>"

text \<open>\<open>r.Header.Get\<close>: the first value under the key, or the empty string.\<close>

definition Header_Get :: "(string \<times> string list) list \<Rightarrow> string \<Rightarrow> string" where
  "Header_Get h k = (case map_of h k of Some (v # vs) \<Rightarrow> v | _ \<Rightarrow> [])"

text \<open>
  \<open>http.SetCookie\<close> with a name and a value only adds the header
  \<open>Set-Cookie: name=value\<close>.
\<close>

definition SetCookie ::
  "(string \<times> string list) list \<Rightarrow> string \<Rightarrow> string \<Rightarrow> (string \<times> string list) list"
where
  "SetCookie w name v = w @ [(''Set-Cookie'', [name @ ''='' @ v])]"

definition COOKIE_SEPARATOR :: char where
  "COOKIE_SEPARATOR = CHR ''|''"

text \<open>\<open>strings.Split\<close> for a separator of one byte, which the cookie separator is.\<close>

fun Split :: "string \<Rightarrow> char \<Rightarrow> string list" where
  "Split [] c = [[]]"
| "Split (x # xs) c =
     (if x = c then [] # Split xs c
      else (case Split xs c of [] \<Rightarrow> [[x]] | w # ws \<Rightarrow> (x # w) # ws))"

text \<open>
  A Go \<open>map[string]bool\<close> is an association list with distinct keys; a missing key
  reads as \<open>false\<close>.
\<close>

definition map_set :: "(string \<times> bool) list \<Rightarrow> string \<Rightarrow> bool \<Rightarrow> (string \<times> bool) list" where
  "map_set m k v = AList.update k v m"

definition map_get :: "(string \<times> bool) list \<Rightarrow> string \<Rightarrow> bool" where
  "map_get m k = (case map_of m k of Some b \<Rightarrow> b | None \<Rightarrow> False)"

section \<open>The image handlers\<close>

text \<open>
  The tail of \<open>PutImageLayerHandler\<close>, from the read of the stored checksum on; both
  branches of \<open>if tarInfo.Error == nil\<close> continue here with their \<open>checksums\<close>.
\<close>

fun cookie_loop :: "string \<Rightarrow> string list \<Rightarrow> string" where
  "cookie_loop cookieString [] = cookieString"
| "cookie_loop cookieString (csum # csums) =
     cookie_loop (cookieString @ csum @ [COOKIE_SEPARATOR]) csums"

definition PutImageLayer_stored ::
  "env \<Rightarrow> storage \<Rightarrow> string \<Rightarrow> (string \<times> bool) list \<Rightarrow> storage \<times> response"
where
  "PutImageLayer_stored E s imageID checksums =
     (case Storage_Get s (ImageChecksumPath imageID) of
        Inl err \<Rightarrow>
          (let cookieString = cookie_loop [] (range_order E (map fst checksums));
               cookieString = TrimSuffix cookieString [COOKIE_SEPARATOR]
           in (s, respond (SetCookie [] ''checksum'' cookieString) (Flag True) 200 EMPTY_HEADERS))
      | Inr storedSum \<Rightarrow>
          if \<not> map_get checksums storedSum
          then (s, respond [] (Text ''Checksum mismatch, ignoring the layer'') 400 EMPTY_HEADERS)
          else (case Storage_Remove s (ImageMarkPath imageID) of
                  (s', Some err) \<Rightarrow> (s', respond [] (Text ''Internal Error'') 500 EMPTY_HEADERS)
                | (s', None) \<Rightarrow> (s', respond [] (Flag True) 200 EMPTY_HEADERS)))"

text \<open>
  \<open>PutImageLayerHandler\<close>. The SHA-256 writer has the JSON written first and then,
  through the tee reader, every byte \<open>PutReader\<close> reads from the body. The handler
  calls \<open>layers.NewTarInfo()\<close> and \<open>tarInfo.TarSum.Compute(jsonContent)\<close>, the layers
  package declares \<open>NewTarInfo(sumSeed)\<close> and \<open>Compute()\<close>: either way the seed of the
  tarsum is \<open>jsonContent\<close>, and the model hands it over at \<open>NewTarInfo\<close>.
\<close>

definition PutImageLayerHandler ::
  "env \<Rightarrow> storage \<Rightarrow> string \<Rightarrow> request \<Rightarrow> storage \<times> response"
where
  "PutImageLayerHandler E s imageID r =
     (case Storage_Get s (ImageJsonPath imageID) of
        Inl err \<Rightarrow> (s, respond [] (Text ''Image not found'') 404 EMPTY_HEADERS)
      | Inr jsonContent \<Rightarrow>
          (let layerPath = ImageLayerPath imageID;
               markPath = ImageMarkPath imageID;
               layerExists = Storage_Exists s layerPath;
               markExists = Storage_Exists s markPath
           in if layerExists \<and> \<not> markExists
              then (s, respond [] (Text ''Image already exists'') 409 EMPTY_HEADERS)
              else
                (let sha256Writer = jsonContent;
                     tarInfo = NewTarInfo jsonContent
                 in case Storage_PutReader s layerPath (req_body r)
                           (Load (sha256 E) (untar E) tarInfo) of
                      (s1, Inl err) \<Rightarrow>
                        (s1, respond [] (TextErr ''Internal Error: '' err) 500 EMPTY_HEADERS)
                    | (s1, Inr tarInfo) \<Rightarrow>
                        (let sha256Writer = sha256Writer @ req_body r;
                             checksums =
                               [(''sha256:'' @ hex_EncodeToString (sha256 E sha256Writer), True)]
                         in if tar_error tarInfo = None
                            then (case Json (json_Marshal E) (filesinfo tarInfo) of
                                    None \<Rightarrow>
                                      (s1, respond [] (TextErr ''Internal Error: '' json_error)
                                             500 EMPTY_HEADERS)
                                  | Some filesJson \<Rightarrow>
                                      (let s2 = fst (SetImageFilesCache s1 imageID filesJson);
                                           checksums =
                                             map_set checksums
                                               (fst (Compute (sha256 E) (tarsum tarInfo))) True
                                       in PutImageLayer_stored E s2 imageID checksums))
                            else PutImageLayer_stored E s1 imageID checksums))))"

text \<open>
  \<open>json.Unmarshal\<close> into a \<open>map[string]interface{}\<close>: an object fills the map, \<open>null\<close>
  leaves it empty, anything else is an error.
\<close>

definition Unmarshal_map :: "env \<Rightarrow> bytes \<Rightarrow> (string \<times> jv) list option" where
  "Unmarshal_map E b =
     (case json_Unmarshal E b of
        Some (JObj kvs) \<Rightarrow> Some kvs
      | Some JNull \<Rightarrow> Some []
      | _ \<Rightarrow> None)"

text \<open>The tail of \<open>PutImageJsonHandler\<close> from the conflict check on.\<close>

definition PutImageJson_write ::
  "env \<Rightarrow> storage \<Rightarrow> string \<Rightarrow> string \<Rightarrow> bytes \<Rightarrow> storage \<times> response"
where
  "PutImageJson_write E s imageID parentID bodyBytes =
     (let jsonPath = ImageJsonPath imageID;
          markPath = ImageMarkPath imageID
      in if Storage_Exists s jsonPath \<and> \<not> Storage_Exists s markPath
         then (s, respond [] (Text ''Image already exists'') 409 EMPTY_HEADERS)
         else
           (case Storage_Put s markPath ''true'' of
              (s1, Some err) \<Rightarrow>
                (s1, respond [] (TextErr ''Put Mark Error: '' err) 500 EMPTY_HEADERS)
            | (s1, None) \<Rightarrow>
                (case Storage_Put s1 jsonPath bodyBytes of
                   (s2, Some err) \<Rightarrow>
                     (s2, respond [] (TextErr ''Put Json Error: '' err) 500 EMPTY_HEADERS)
                 | (s2, None) \<Rightarrow>
                     (case GenerateAncestry E s2 imageID parentID of
                        (s3, Some err) \<Rightarrow>
                          (s3, respond [] (TextErr ''Generate Ancestry Error: '' err) 500
                                 EMPTY_HEADERS)
                      | (s3, None) \<Rightarrow>
                          (s3, respond [] (Text ''true'') 200 EMPTY_HEADERS)))))"

text \<open>The middle of \<open>PutImageJsonHandler\<close>: the checks of \<open>id\<close> and \<open>parent\<close>.\<close>

definition PutImageJson_checks ::
  "env \<Rightarrow> storage \<Rightarrow> string \<Rightarrow> (string \<times> jv) list \<Rightarrow> bytes \<Rightarrow> storage \<times> response"
where
  "PutImageJson_checks E s imageID data bodyBytes =
     (case map_of data ''id'' of
        Some (JStr dataID) \<Rightarrow>
          if imageID \<noteq> dataID
          then (s, respond [] (Text ''JSON data contains invalid id'') 400 EMPTY_HEADERS)
          else
            (case map_of data ''parent'' of
               None \<Rightarrow> PutImageJson_write E s imageID [] bodyBytes
             | Some (JStr parentID) \<Rightarrow>
                 if \<not> Storage_Exists s (ImageJsonPath parentID)
                 then (s, respond [] (Text ''Image depends on non-existant parent'') 400
                            EMPTY_HEADERS)
                 else PutImageJson_write E s imageID parentID bodyBytes
             | Some _ \<Rightarrow>
                 (s, respond [] (Text ''Invalid JSON: 'parent' is not a string'') 400
                       EMPTY_HEADERS))
      | _ \<Rightarrow> (s, respond [] (Text ''Invalid JSON: 'id' is not a string'') 400 EMPTY_HEADERS))"

definition PutImageJsonHandler ::
  "env \<Rightarrow> storage \<Rightarrow> string \<Rightarrow> request \<Rightarrow> storage \<times> response"
where
  "PutImageJsonHandler E s imageID r =
     (if req_body_fails r
      then (s, respond [] (TextErr ''Invalid Body: '' io_error) 400 EMPTY_HEADERS)
      else
        (let bodyBytes = req_body r
         in case Unmarshal_map E bodyBytes of
              None \<Rightarrow> (s, respond [] (TextErr ''Invalid JSON: '' json_error) 400 EMPTY_HEADERS)
            | Some data \<Rightarrow>
                if map_of data ''id'' = None
                then (s, respond [] (Text ''Missing key 'id' in JSON'') 400 EMPTY_HEADERS)
                else
                  (let checksum = Header_Get (req_headers r) ''X-Docker-Checksum''
                   in if checksum = []
                      then PutImageJson_checks E
                             (fst (Storage_Remove s (ImageChecksumPath imageID)))
                             imageID data bodyBytes
                      else (case StoreChecksum s imageID checksum of
                              (s1, Some err) \<Rightarrow>
                                (s1, respond [] (TextErr [] err) 400 EMPTY_HEADERS)
                            | (s1, None) \<Rightarrow>
                                PutImageJson_checks E s1 imageID data bodyBytes))))"

text \<open>\<open>r.Cookie(name)\<close>: the first cookie of that name, or an error.\<close>

definition Cookie :: "request \<Rightarrow> string \<Rightarrow> string option" where
  "Cookie r name = map_of (req_cookies r) name"

fun checksumMap_loop :: "(string \<times> bool) list \<Rightarrow> string list \<Rightarrow> (string \<times> bool) list" where
  "checksumMap_loop m [] = m"
| "checksumMap_loop m (c # cs) = checksumMap_loop (map_set m c True) cs"

definition PutImageChecksumHandler ::
  "storage \<Rightarrow> string \<Rightarrow> request \<Rightarrow> storage \<times> response"
where
  "PutImageChecksumHandler s imageID r =
     (let checksum = Header_Get (req_headers r) ''X-Docker-Checksum''
      in if checksum = []
         then (s, respond [] (Text ''Missing Image's checksum'') 400 EMPTY_HEADERS)
         else
           (case Cookie r ''checksum'' of
              None \<Rightarrow> (s, respond [] (Text ''Checksum not found in Cookie'') 400 EMPTY_HEADERS)
            | Some checksumCookie \<Rightarrow>
                if \<not> Storage_Exists s (ImageJsonPath imageID)
                then (s, respond [] (Text ''Image not found'') 404 EMPTY_HEADERS)
                else
                  (let markPath = ImageMarkPath imageID
                   in if \<not> Storage_Exists s markPath
                      then (s, respond []
                                 (Text ''Cannot set this image checksum (mark path does not exist)'')
                                 409 EMPTY_HEADERS)
                      else
                        (let s1 = fst (StoreChecksum s imageID checksum);
                             checksumMap =
                               checksumMap_loop [] (Split checksumCookie COOKIE_SEPARATOR)
                         in if \<not> map_get checksumMap checksum
                            then (s1, respond [] (Text ''Checksum mismatch'') 400 EMPTY_HEADERS)
                            else (fst (Storage_Remove s1 markPath),
                                  respond [] (Flag True) 200 EMPTY_HEADERS)))))"

section \<open>Caching headers and conditional requests\<close>

text \<open>
  A \<open>time.Time\<close> in UTC is its Unix second; the fields \<open>Format\<close> prints are computed
  from it by the proleptic Gregorian calendar. \<open>weekday\<close> counts from Sunday as 0,
  \<open>yearday\<close> from 1.
\<close>

record civil =
  year :: int
  month :: int
  day :: int
  hour :: int
  minute :: int
  second :: int
  weekday :: int
  yearday :: int

definition days_from_civil :: "int \<Rightarrow> int \<Rightarrow> int \<Rightarrow> int" where
  "days_from_civil y m d =
     (let y' = (if m \<le> 2 then y - 1 else y);
          era = y' div 400;
          yoe = y' - era * 400;
          doy = (153 * (if m > 2 then m - 3 else m + 9) + 2) div 5 + d - 1;
          doe = yoe * 365 + yoe div 4 - yoe div 100 + doy
      in era * 146097 + doe - 719468)"

definition civil_of_unix :: "int \<Rightarrow> civil" where
  "civil_of_unix t =
     (let days = t div 86400;
          secs = t mod 86400;
          z = days + 719468;
          era = z div 146097;
          doe = z - era * 146097;
          yoe = (doe - doe div 1460 + doe div 36524 - doe div 146096) div 365;
          doy = doe - (365 * yoe + yoe div 4 - yoe div 100);
          mp = (5 * doy + 2) div 153;
          d = doy - (153 * mp + 2) div 5 + 1;
          m = (if mp < 10 then mp + 3 else mp - 9);
          y = yoe + era * 400 + (if m \<le> 2 then 1 else 0)
      in \<lparr>year = y, month = m, day = d,
          hour = secs div 3600, minute = (secs mod 3600) div 60, second = secs mod 60,
          weekday = (days + 4) mod 7,
          yearday = days - days_from_civil y 1 1 + 1\<rparr>)"

definition longMonthNames :: "string list" where
  "longMonthNames = [''January'', ''February'', ''March'', ''April'', ''May'', ''June'', ''July'',
                     ''August'', ''September'', ''October'', ''November'', ''December'']"

definition longDayNames :: "string list" where
  "longDayNames = [''Sunday'', ''Monday'', ''Tuesday'', ''Wednesday'', ''Thursday'', ''Friday'',
                   ''Saturday'']"

definition pad_int :: "nat \<Rightarrow> int \<Rightarrow> string" where
  "pad_int w i = (let s = fmt_d i in replicate (w - length s) (CHR ''0'') @ s)"

definition startsWithLowerCase :: "string \<Rightarrow> bool" where
  "startsWithLowerCase s =
     (case s of [] \<Rightarrow> False | c # cs \<Rightarrow> CHR ''a'' \<le> c \<and> c \<le> CHR ''z'')"

text \<open>
  \<open>time.Time.Format\<close> reads its layout as Go's reference time: it looks at the layout
  from left to right, and where a chunk of the reference time starts it prints that
  field of the time instead, every other character is copied. \<open>nextStdChunk\<close> gives, at
  the head of the rest of the layout, the text to print and the number of layout
  characters it stands for. It has the cases of the characters \<open>J\<close>, \<open>M\<close>, \<open>0\<close> and
  \<open>1\<close>; the other characters that can start a chunk in Go (\<open>2 3 4 5 _ P p - Z .\<close>, and a
  comma before a digit) do not occur in the one layout the program uses.
\<close>

definition nextStdChunk :: "civil \<Rightarrow> string \<Rightarrow> string \<times> nat" where
  "nextStdChunk t layout =
     (if HasPrefix layout ''January'' then (longMonthNames ! nat (month t - 1), 7)
      else if HasPrefix layout ''Jan'' \<and> \<not> startsWithLowerCase (drop 3 layout)
        then (take 3 (longMonthNames ! nat (month t - 1)), 3)
      else if HasPrefix layout ''Monday'' then (longDayNames ! nat (weekday t), 6)
      else if HasPrefix layout ''Mon'' \<and> \<not> startsWithLowerCase (drop 3 layout)
        then (take 3 (longDayNames ! nat (weekday t)), 3)
      else if HasPrefix layout ''MST'' then (''UTC'', 3)
      else if HasPrefix layout ''01'' then (pad_int 2 (month t), 2)
      else if HasPrefix layout ''02'' then (pad_int 2 (day t), 2)
      else if HasPrefix layout ''03''
        then (pad_int 2 (if hour t mod 12 = 0 then 12 else hour t mod 12), 2)
      else if HasPrefix layout ''04'' then (pad_int 2 (minute t), 2)
      else if HasPrefix layout ''05'' then (pad_int 2 (second t), 2)
      else if HasPrefix layout ''06'' then (pad_int 2 (year t mod 100), 2)
      else if HasPrefix layout ''002'' then (pad_int 3 (yearday t), 3)
      else if HasPrefix layout ''15'' then (pad_int 2 (hour t), 2)
      else if HasPrefix layout ''1'' then (fmt_d (month t), 1)
      else (take 1 layout, 1))"

fun Format_from :: "civil \<Rightarrow> nat \<Rightarrow> string \<Rightarrow> string" where
  "Format_from t k [] = []"
| "Format_from t (Suc k) (c # cs) = Format_from t k cs"
| "Format_from t 0 (c # cs) =
     (case nextStdChunk t (c # cs) of (out, n) \<Rightarrow> out @ Format_from t (n - 1) cs)"

definition time_Format :: "int \<Rightarrow> string \<Rightarrow> string" where
  "time_Format t layout = Format_from (civil_of_unix t) 0 layout"

text \<open>
  \<open>DefaultCacheHeaders\<close>. \<open>365*24*time.Hour.Seconds()\<close> is 31536000, and adding
  \<open>365 * 24 * time.Hour\<close> to the time adds as many seconds.
\<close>

definition DefaultCacheHeaders :: "env \<Rightarrow> (string \<times> string list) list" where
  "DefaultCacheHeaders E =
     [(''Cache-Control'', [''public, max-age='' @ fmt_d (365 * 24 * 3600)]),
      (''Expires'',
         [time_Format (time_Now E + 365 * 24 * 3600) ''Thu, 01 Jan 1970 00:00:00 GMT'']),
      (''Last-Modified'', [''Thu, 01 Jan 1970 00:00:00 GMT''])]"

text \<open>
  The two wrappers of the read endpoints; a handler is a function of the store and the
  request. \<open>r.Header[key]\<close> is the list of values under the key, empty if there is
  none.
\<close>

type_synonym handler = "storage \<Rightarrow> request \<Rightarrow> storage \<times> response"

definition Header_values :: "(string \<times> string list) list \<Rightarrow> string \<Rightarrow> string list" where
  "Header_values h k = (case map_of h k of Some vs \<Rightarrow> vs | None \<Rightarrow> [])"

definition CheckIfModifiedSince :: "env \<Rightarrow> handler \<Rightarrow> handler" where
  "CheckIfModifiedSince E handler s r =
     (if length (Header_values (req_headers r) ''If-Modified-Since'') > 0
      then (s, respond [] (Flag True) 304 (DefaultCacheHeaders E))
      else handler s r)"

definition RequireCompletion :: "string \<Rightarrow> handler \<Rightarrow> handler" where
  "RequireCompletion imageID handler s r =
     (if Storage_Exists s (ImageMarkPath imageID)
      then (s, respond [] (Text ''Image is being uploaded, retry later'') 400 EMPTY_HEADERS)
      else handler s r)"

text \<open>
  \<open>GetImageJsonHandler\<close>. When \<open>Get\<close> of the checksum fails, the bytes it returns with
  the error are empty.
\<close>

definition GetImageJsonHandler :: "env \<Rightarrow> string \<Rightarrow> handler" where
  "GetImageJsonHandler E imageID s r =
     (let headers = DefaultCacheHeaders E
      in case Storage_Get s (ImageJsonPath imageID) of
           Inl err \<Rightarrow> (s, respond [] (Text ''Image not found'') 404 EMPTY_HEADERS)
         | Inr data \<Rightarrow>
             (let headers =
                    (case Storage_Size s (ImageLayerPath imageID) of
                       Inr sz \<Rightarrow> AList.update ''X-Docker-Size'' [fmt_d sz] headers
                     | Inl err \<Rightarrow> headers);
                  checksumPath = ImageChecksumPath imageID;
                  headers =
                    (if Storage_Exists s checksumPath
                     then (case Storage_Get s checksumPath of
                             Inl err \<Rightarrow> AList.update ''X-Docker-Checksum'' [[]] headers
                           | Inr checksum \<Rightarrow> headers)
                     else headers)
              in (s, respond [] (Data data) 200 headers)))"

definition GetImageAncestryHandler :: "env \<Rightarrow> string \<Rightarrow> handler" where
  "GetImageAncestryHandler E imageID s r =
     (let headers = DefaultCacheHeaders E
      in case Storage_Get s (ImageAncestryPath imageID) of
           Inl err \<Rightarrow> (s, respond [] (Text ''Image not found'') 404 EMPTY_HEADERS)
         | Inr data \<Rightarrow> (s, respond [] (Data data) 200 headers))"

section \<open>Repository tags and metadata\<close>

text \<open>
  Modelled from the spec: \<open>USER_AGENT_REGEXP\<close>, which is not among the sources, and
  \<open>FindAllStringSubmatch\<close> on it. The specification has it match repeated \<open>key/value\<close>
  tokens; a key and a value are maximal runs of characters other than white space
  and \<open>/\<close>, joined by one \<open>/\<close>, and the matches are found from left to right without
  overlap. \<open>ua_scan\<close> reads a key (no key at hand) or the value of the key at hand, and
  yields the pairs \<open>(match[1], match[2])\<close>.
\<close>

definition is_token_char :: "char \<Rightarrow> bool" where
  "is_token_char c = (c \<noteq> CHR ''/'' \<and> c \<noteq> CHR '' '' \<and> c \<noteq> CHR 0x09 \<and> c \<noteq> CHR 0x0A
                       \<and> c \<noteq> CHR 0x0C \<and> c \<noteq> CHR 0x0D)"

fun ua_scan :: "string option \<Rightarrow> string \<Rightarrow> string \<Rightarrow> (string \<times> string) list" where
  "ua_scan None acc [] = []"
| "ua_scan (Some k) acc [] = [(k, acc)]"
| "ua_scan None acc (c # cs) =
     (if is_token_char c then ua_scan None (acc @ [c]) cs
      else if c = CHR ''/'' \<and> acc \<noteq> [] \<and> (case cs of [] \<Rightarrow> False | d # ds \<Rightarrow> is_token_char d)
        then ua_scan (Some acc) [] cs
      else ua_scan None [] cs)"
| "ua_scan (Some k) acc (c # cs) =
     (if is_token_char c then ua_scan (Some k) (acc @ [c]) cs
      else (k, acc) # ua_scan None [] cs)"

definition FindAllStringSubmatch :: "string \<Rightarrow> (string \<times> string) list" where
  "FindAllStringSubmatch s = ua_scan None [] s"

text \<open>\<open>strings.ToLower\<close> on ASCII letters.\<close>

definition ToLower :: "string \<Rightarrow> string" where
  "ToLower s =
     map (\<lambda>c. if CHR ''A'' \<le> c \<and> c \<le> CHR ''Z'' then char_of (of_char c + (32 :: nat)) else c) s"

fun uaMap_loop :: "(string \<times> string) list \<Rightarrow> (string \<times> string) list \<Rightarrow> (string \<times> string) list"
where
  "uaMap_loop m [] = m"
| "uaMap_loop m ((k, v) # ms) = uaMap_loop (AList.update k v m) ms"

definition CreateRepoJson :: "env \<Rightarrow> string \<Rightarrow> (string \<times> jv) list" where
  "CreateRepoJson E userAgent =
     (let props = [(''last_update'', JNum (time_Now E))];
          matches = FindAllStringSubmatch userAgent;
          uaMap = uaMap_loop [] matches;
          props = (case map_of uaMap ''docker_version'' of
                     Some val \<Rightarrow> AList.update ''docker_version'' (JStr val) props
                   | None \<Rightarrow> props);
          props = (case map_of uaMap ''go'' of
                     Some val \<Rightarrow> AList.update ''docker_go_version'' (JStr val) props
                   | None \<Rightarrow> props);
          props = (case map_of uaMap ''arch'' of
                     Some val \<Rightarrow> AList.update ''arch'' (JStr (ToLower val)) props
                   | None \<Rightarrow> props);
          props = (case map_of uaMap ''kernel'' of
                     Some val \<Rightarrow> AList.update ''kernel'' (JStr (ToLower val)) props
                   | None \<Rightarrow> props);
          props = (case map_of uaMap ''os'' of
                     Some val \<Rightarrow> AList.update ''os'' (JStr (ToLower val)) props
                   | None \<Rightarrow> props)
      in props)"

definition PutRepoTagHandler ::
  "env \<Rightarrow> string \<Rightarrow> string \<Rightarrow> string \<Rightarrow> storage \<Rightarrow> request \<Rightarrow> storage \<times> response"
where
  "PutRepoTagHandler E namespace repo tag s r =
     (let data = req_body r
      in if req_body_fails r \<or> length data = 0
         then (s, respond [] (Text ''Invalid data'') 400 EMPTY_HEADERS)
         else if \<not> Storage_Exists s (ImageJsonPath data)
         then (s, respond [] (Text ''Image not found'') 404 EMPTY_HEADERS)
         else
           (case Storage_Put s (RepoTagPath namespace repo tag) data of
              (s1, Some err) \<Rightarrow>
                (s1, respond [] (TextErr ''Internal Error: '' err) 500 EMPTY_HEADERS)
            | (s1, None) \<Rightarrow>
                if tag = ''latest''
                then
                  (let uaStrings = Header_values (req_headers r) ''User-Agent'';
                       uaString = (case uaStrings of [] \<Rightarrow> [] | u # us \<Rightarrow> u);
                       dataMap = CreateRepoJson E uaString
                   in case json_Marshal E (JObj dataMap) of
                        None \<Rightarrow>
                          (s1, respond [] (TextErr ''Internal Error: '' json_error) 500
                                 EMPTY_HEADERS)
                      | Some jsonData \<Rightarrow>
                          (fst (Storage_Put s1 (RepoJsonPath namespace repo) jsonData),
                           respond [] (Flag True) 200 EMPTY_HEADERS))
                else (s1, respond [] (Flag True) 200 EMPTY_HEADERS)))"

section \<open>Auxiliary definitions used to state the properties\<close>

text \<open>The digest \<open>TarSum.Append\<close> records for one entry.\<close>

definition entry_digest :: "(bytes \<Rightarrow> bytes) \<Rightarrow> tar_entry \<Rightarrow> string" where
  "entry_digest H e = hex_EncodeToString (H (entry_written e))"

text \<open>
  The name rewriting of the file listing as the specification words it: \<open>.\<close> becomes
  \<open>/\<close>, a leading \<open>./\<close> becomes a leading \<open>/\<close>; then a leading \<open>/.wh.\<close> becomes a
  leading \<open>/\<close> and marks the entry deleted; an entry whose rewritten name again begins
  with \<open>/.wh.\<close> is not retained.
\<close>

definition spec_name :: "string \<Rightarrow> string" where
  "spec_name n =
     (if n = ''.'' then ''/'' else if HasPrefix n ''./'' then ''/'' @ drop 2 n else n)"

definition spec_whiteout :: "string \<Rightarrow> string \<times> bool" where
  "spec_whiteout n = (if HasPrefix n ''/.wh.'' then (''/'' @ drop 5 n, True) else (n, False))"

definition spec_retained :: "tar_Header \<Rightarrow> bool" where
  "spec_retained h = (\<not> HasPrefix (fst (spec_whiteout (spec_name (Name h)))) ''/.wh.'')"

definition spec_tuple :: "tar_Header \<Rightarrow> jv" where
  "spec_tuple h =
     (let (n, del) = spec_whiteout (spec_name (Name h))
      in JArr [JStr n, JStr (filetype_of (Typeflag h)), JBool del, JNum (Size h),
               JNum (ModTime h), JNum (Mode h), JNum (Uid h), JNum (Gid h)])"

text \<open>Two small entries and a small digest function for concrete runs.\<close>

definition hdr0 :: tar_Header where
  "hdr0 = \<lparr>Name = ''a'', Mode = 420, Uid = 0, Gid = 0, Size = 0, ModTime = 0,
           Typeflag = CHR ''0'', Linkname = [], Uname = [], Gname = [],
           Devmajor = 0, Devminor = 7\<rparr>"

definition ent1 :: tar_entry where
  "ent1 = \<lparr>hdr = hdr0\<lparr>Name := ''b'', Size := 3\<rparr>, content = ''abc'', copy_fails = False\<rparr>"

definition ent2 :: tar_entry where
  "ent2 = \<lparr>hdr = hdr0, content = [], copy_fails = False\<rparr>"

definition lastbyte :: "bytes \<Rightarrow> bytes" where
  "lastbyte b = (if b = [] then [] else [last b])"

text \<open>A backend on which no operation fails.\<close>

definition no_faults :: "storage_op \<Rightarrow> key \<Rightarrow> bool" where
  "no_faults op k = False"


text \<open>The stored ancestry of an image, decoded as a JSON array.\<close>

definition ancestry_of :: "env \<Rightarrow> storage \<Rightarrow> string \<Rightarrow> jv list option" where
  "ancestry_of E s i =
     (case blobs s (ImageAncestryPath i) of
        None \<Rightarrow> None
      | Some b \<Rightarrow> (case json_Unmarshal E b of Some (JArr xs) \<Rightarrow> Some xs | _ \<Rightarrow> None))"


text \<open>
  The data model's invariant on ancestries: a stored ancestry is an array that starts
  with its own image.
\<close>

definition ancestry_inv :: "env \<Rightarrow> storage \<Rightarrow> bool" where
  "ancestry_inv E s =
     (\<forall>i. blobs s (ImageAncestryPath i) \<noteq> None \<longrightarrow>
          (\<exists>tl. ancestry_of E s i = Some (JStr i # tl)))"

text \<open>Concrete stores, requests and a small environment for concrete runs.\<close>

definition store_mark :: storage where
  "store_mark =
     \<lparr>blobs = [ImageJsonPath ''abc'' \<mapsto> ''{\"id\":\"abc\"}'', ImageMarkPath ''abc'' \<mapsto> ''true''],
      faulty = no_faults, journal = []\<rparr>"

definition req_badsum :: request where
  "req_badsum = \<lparr>req_headers = [(''X-Docker-Checksum'', [''sha256:bad''])],
                 req_cookies = [(''checksum'', ''sha256:aa|tarsum+sha256bb'')],
                 req_body = [], req_body_fails = False\<rparr>"

definition toy_Marshal :: "jv \<Rightarrow> bytes option" where
  "toy_Marshal v =
     (if v = JArr [JStr ''abc'', JStr ''p0''] then Some ''[\"abc\",\"p0\"]''
      else if v = JArr [JStr ''p0''] then Some ''[\"p0\"]''
      else if v = JArr [JStr ''abc''] then Some ''[\"abc\"]''
      else None)"

definition toy_Unmarshal :: "bytes \<Rightarrow> jv option" where
  "toy_Unmarshal b =
     (if b = ''[\"abc\",\"p0\"]'' then Some (JArr [JStr ''abc'', JStr ''p0''])
      else if b = ''[\"p0\"]'' then Some (JArr [JStr ''p0''])
      else if b = ''{\"id\":\"abc\",\"parent\":\"p0\"}''
        then Some (JObj [(''id'', JStr ''abc''), (''parent'', JStr ''p0'')])
      else if b = ''{\"id\":\"xyz\"}'' then Some (JObj [(''id'', JStr ''xyz'')])
      else if b = ''[\"abc\"]'' then Some (JArr [JStr ''abc''])
      else if b = ''{\"id\":\"abc\"}'' then Some (JObj [(''id'', JStr ''abc'')])
      else None)"

definition env_toy :: env where
  "env_toy = \<lparr>sha256 = lastbyte, untar = (\<lambda>b. ([], Some ''unexpected EOF'')),
              json_Marshal = toy_Marshal, json_Unmarshal = toy_Unmarshal,
              time_Now = 0, range_order = rev\<rparr>"

definition store_parent :: storage where
  "store_parent =
     \<lparr>blobs = [ImageJsonPath ''p0'' \<mapsto> ''{\"id\":\"p0\"}'', ImageAncestryPath ''p0'' \<mapsto> ''[\"p0\"]'',
               ImageChecksumPath ''abc'' \<mapsto> ''sha256:old''],
      faulty = no_faults, journal = []\<rparr>"


definition req_wrong_id :: request where
  "req_wrong_id = \<lparr>req_headers = [], req_cookies = [],
                   req_body = ''{\"id\":\"xyz\"}'', req_body_fails = False\<rparr>"

text \<open>Strings joined by a separator byte, with no separator after the last.\<close>

definition join :: "char \<Rightarrow> string list \<Rightarrow> string" where
  "join c ds = butlast (concat (map (\<lambda>d. d @ [c]) ds))"

text \<open>
  The two candidate digests of a layer upload, and the store once the layer is written.
\<close>

definition sha_digest :: "env \<Rightarrow> bytes \<Rightarrow> bytes \<Rightarrow> string" where
  "sha_digest E jsonContent stream =
     ''sha256:'' @ hex_EncodeToString (sha256 E (jsonContent @ stream))"

definition tarsum_digest :: "env \<Rightarrow> bytes \<Rightarrow> tar_entry list \<Rightarrow> string" where
  "tarsum_digest E jsonContent es =
     ''tarsum+sha256'' @ hex_EncodeToString
        (sha256 E (jsonContent @ concat (sort (map (entry_digest (sha256 E)) es))))"

definition layer_written :: "storage \<Rightarrow> string \<Rightarrow> bytes \<Rightarrow> storage" where
  "layer_written s imageID stream =
     s\<lparr>blobs := (blobs s)(ImageLayerPath imageID \<mapsto> stream),
       journal := journal s @ [Wrote (ImageLayerPath imageID) stream]\<rparr>"

text \<open>More concrete values: a tar reader that accepts one stream, stores and requests.\<close>

definition untar_toy :: "bytes \<Rightarrow> tar_entry list \<times> string option" where
  "untar_toy b = (if b = ''tarball'' then ([ent2, ent1], None) else ([], Some ''unexpected EOF''))"

definition env_layer :: env where
  "env_layer = \<lparr>sha256 = lastbyte, untar = untar_toy,
               json_Marshal = (\<lambda>v. Some ''[]''), json_Unmarshal = toy_Unmarshal,
               time_Now = 0, range_order = rev\<rparr>"

definition req_layer :: "bytes \<Rightarrow> request" where
  "req_layer b = \<lparr>req_headers = [], req_cookies = [], req_body = b, req_body_fails = False\<rparr>"

definition store_unmarked :: storage where
  "store_unmarked =
     \<lparr>blobs = [ImageJsonPath ''abc'' \<mapsto> ''{\"id\":\"abc\"}'', ImageAncestryPath ''abc'' \<mapsto> ''[\"abc\"]''],
      faulty = no_faults, journal = []\<rparr>"

definition store_empty :: storage where
  "store_empty = \<lparr>blobs = Map.empty, faulty = no_faults, journal = []\<rparr>"

definition req_first :: request where
  "req_first = \<lparr>req_headers = [], req_cookies = [],
                req_body = ''{\"id\":\"abc\"}'', req_body_fails = False\<rparr>"

definition req_confirm :: request where
  "req_confirm = \<lparr>req_headers = [(''X-Docker-Checksum'', [''sha256:aa''])],
                  req_cookies = [(''checksum'', ''sha256:aa'')],
                  req_body = [], req_body_fails = False\<rparr>"

definition store_staged :: storage where
  "store_staged =
     \<lparr>blobs = [ImageMarkPath ''abc'' \<mapsto> ''true'', ImageJsonPath ''abc'' \<mapsto> ''{\"id\":\"abc\"}'',
               ImageAncestryPath ''abc'' \<mapsto> ''[\"abc\"]''],
      faulty = no_faults,
      journal = [Removed (ImageChecksumPath ''abc''), Wrote (ImageMarkPath ''abc'') ''true'',
                 Wrote (ImageJsonPath ''abc'') ''{\"id\":\"abc\"}'',
                 Wrote (ImageAncestryPath ''abc'') ''[\"abc\"]'']\<rparr>"

text \<open>A store holding a complete image, and the user agent of the specification.\<close>

definition store_complete :: storage where
  "store_complete =
     \<lparr>blobs = [ImageJsonPath ''abc'' \<mapsto> ''{\"id\":\"abc\"}'', ImageLayerPath ''abc'' \<mapsto> ''tarball'',
               ImageAncestryPath ''abc'' \<mapsto> ''[\"abc\"]'', ImageChecksumPath ''abc'' \<mapsto> ''sha256:6c''],
      faulty = no_faults, journal = []\<rparr>"

definition docker_user_agent :: string where
  "docker_user_agent = ''docker/1.2 go/1.3 arch/AMD64 os/Linux kernel/3.10''"

section \<open>TarSum\<close>

lemma hashes_foldl_Append:
  "hashes (foldl (Append H) t es) = hashes t @ map (entry_digest H) es"
  by (induction es arbitrary: t) (simp_all add: Append_def Let_def entry_digest_def)

lemma seed_foldl_Append: "seed (foldl (Append H) t es) = seed t"
  by (induction es arbitrary: t) (simp_all add: Append_def Let_def)

lemma sort_cong_mset: "mset xs = mset ys \<Longrightarrow> sort xs = sort (ys :: string list)"
  by (rule properties_for_sort) simp_all

lemma Compute_foldl_Append:
  "fst (Compute H (foldl (Append H) (NewTarSum sd) es)) =
     ''tarsum+sha256'' @ hex_EncodeToString (H (sd @ concat (sort (map (entry_digest H) es))))"
  by (simp add: Compute_def Let_def hashes_foldl_Append seed_foldl_Append NewTarSum_def)

text \<open>
  C4. Whatever the seed and the entries, appending the entries in any order (any
  permutation \<open>es'\<close> of \<open>es\<close>) and calling \<open>Compute\<close> gives the same text: the literal
  \<open>tarsum+sha256\<close> directly followed by the hex of the digest of the seed bytes and
  then the per-entry hex digests in sorted order.
\<close>

theorem TarSum_Compute_order_independent:
  assumes "mset es' = mset es"
  shows "fst (Compute H (foldl (Append H) (NewTarSum sd) es')) =
     ''tarsum+sha256'' @ hex_EncodeToString (H (sd @ concat (sort (map (entry_digest H) es))))"
proof -
  have "mset (map (entry_digest H) es') = mset (map (entry_digest H) es)"
    using assms by (metis mset_map)
  then have "sort (map (entry_digest H) es') = sort (map (entry_digest H) es)"
    by (rule sort_cong_mset)
  then show ?thesis
    by (simp add: Compute_foldl_Append)
qed

lemma digest_ent1: "entry_digest lastbyte ent1 = ''63''"
  by (simp add: entry_digest_def entry_written_def ent1_def hdr0_def headerStr_def Let_def
      lastbyte_def hexdigit_def)

lemma digest_ent2: "entry_digest lastbyte ent2 = ''37''"
  by (simp add: entry_digest_def entry_written_def ent2_def hdr0_def headerStr_def Let_def
      lastbyte_def hexdigit_def HasSuffix_def TypeDir_def fmt_d_def fmt_c_def)

lemma sort_two_digests: "sort [''63'', ''37''] = [''37'', ''63'']"
  by (simp add: less_char_def less_eq_char_def)

theorem TarSum_Compute_order_independent_witness:
  "mset [ent2, ent1] = mset [ent1, ent2] \<and>
   fst (Compute lastbyte (foldl (Append lastbyte) (NewTarSum ''{}'') [ent2, ent1])) =
     ''tarsum+sha25633''"
proof -
  have m: "mset [ent2, ent1] = mset [ent1, ent2]" by simp
  show ?thesis
    using m TarSum_Compute_order_independent [OF m, of lastbyte "''{}''"]
    by (simp add: digest_ent1 digest_ent2 sort_two_digests lastbyte_def hexdigit_def)
qed

section \<open>TarFilesInfo\<close>

lemma TrimPrefix_drop: "HasPrefix s p \<Longrightarrow> TrimPrefix s p = drop (length p) s"
  by (simp add: TrimPrefix_def)

lemma dot_step:
  "(let f = (if n = ''.'' then ''/'' else n)
    in if HasPrefix f ''./'' then ''/'' @ TrimPrefix f ''./'' else f) = spec_name n"
proof (cases "n = ''.''")
  case True
  then show ?thesis by (simp add: spec_name_def HasPrefix_def)
next
  case False
  then show ?thesis by (simp add: spec_name_def TrimPrefix_drop eval_nat_numeral)
qed

lemma wh_step:
  "(if HasPrefix f ''/.wh.'' then (''/'' @ TrimPrefix f ''/.wh.'', True) else (f, False))
     = spec_whiteout f"
  by (simp add: spec_whiteout_def TrimPrefix_drop eval_nat_numeral)

lemma Json_loop_Cons:
  "Json_loop acc (h # hs) =
     (if spec_retained h then Json_loop (acc @ [spec_tuple h]) hs else Json_loop acc hs)"
proof -
  have step: "Json_loop acc (h # hs) =
     (let f = (let f = (if Name h = ''.'' then ''/'' else Name h)
               in if HasPrefix f ''./'' then ''/'' @ TrimPrefix f ''./'' else f);
          (f', d) = (if HasPrefix f ''/.wh.'' then (''/'' @ TrimPrefix f ''/.wh.'', True)
                     else (f, False))
      in if HasPrefix f' ''/.wh.'' then Json_loop acc hs
         else Json_loop
                (acc @ [JArr [JStr f', JStr (filetype_of (Typeflag h)), JBool d,
                              JNum (Size h), JNum (ModTime h), JNum (Mode h),
                              JNum (Uid h), JNum (Gid h)]]) hs)"
    by (simp only: Json_loop.simps Let_def)
  show ?thesis
    unfolding step dot_step wh_step
    by (cases "spec_whiteout (spec_name (Name h))")
       (simp add: spec_retained_def spec_tuple_def)
qed

lemma Json_loop_acc:
  "Json_loop acc hs = acc @ map spec_tuple (filter spec_retained hs)"
proof (induction hs arbitrary: acc)
  case Nil show ?case by simp
next
  case (Cons h hs)
  show ?case unfolding Json_loop_Cons by (simp add: Cons.IH)
qed

text \<open>
  C6. For every sequence of headers, \<open>TarFilesInfo.Json\<close> marshals the array that has,
  in order, one tuple \<open>[name, type, isDeleted, size, mtime, mode, uid, gid]\<close> for each
  retained header, with the name rewritten as the specification says, and no tuple for
  a header whose rewritten name again begins with \<open>/.wh.\<close>.
\<close>

theorem TarFilesInfo_Json_tuples:
  "Json marshal t = marshal (JArr (map spec_tuple (filter spec_retained (headers t))))"
  by (simp add: Json_def Json_loop_acc)

section \<open>PutImageChecksumHandler\<close>

lemma map_of_checksumMap_loop:
  "map_of (checksumMap_loop m cs) c = (if c \<in> set cs then Some True else map_of m c)"
  by (induction cs arbitrary: m) (simp_all add: map_set_def update_conv')

lemma map_get_checksumMap_loop: "map_get (checksumMap_loop [] cs) c = (c \<in> set cs)"
  by (simp add: map_get_def map_of_checksumMap_loop)

lemma Split_example:
  "Split ''sha256:aa|tarsum+sha256bb'' COOKIE_SEPARATOR = [''sha256:aa'', ''tarsum+sha256bb'']"
  by (simp add: COOKIE_SEPARATOR_def)

text \<open>
  C2, as the code has it. For a PutChecksum request on an image whose json and mark
  blobs exist, with a non-empty \<open>X-Docker-Checksum\<close> header and a checksum cookie, if the
  header value is not among the pipe-separated values of the cookie, the handler
  responds 400, the mark blob is as it was, and the only blob that can differ is the
  checksum blob: the header value was stored under it before the comparison (unless
  that write failed).
\<close>

theorem PutImageChecksum_mismatch:
  assumes "Storage_Exists s (ImageJsonPath imageID)"
    and "Storage_Exists s (ImageMarkPath imageID)"
    and "Header_Get (req_headers r) ''X-Docker-Checksum'' = checksum" and "checksum \<noteq> []"
    and "Cookie r ''checksum'' = Some cookie"
    and "checksum \<notin> set (Split cookie COOKIE_SEPARATOR)"
    and "PutImageChecksumHandler s imageID r = (s', resp)"
  shows "status resp = 400 \<and>
         blobs s' (ImageMarkPath imageID) = blobs s (ImageMarkPath imageID) \<and>
         blobs s' =
           (if faulty s OpPut (ImageChecksumPath imageID) then blobs s
            else (blobs s)(ImageChecksumPath imageID \<mapsto> checksum))"
  using assms
  by (auto simp add: PutImageChecksumHandler_def Let_def map_get_checksumMap_loop
      StoreChecksum_def Storage_Put_def respond_def split: if_splits)

lemma badsum_header:
  "Header_Get (req_headers req_badsum) ''X-Docker-Checksum'' = ''sha256:bad''"
  by (simp add: Header_Get_def req_badsum_def)

lemma badsum_cookie: "Cookie req_badsum ''checksum'' = Some ''sha256:aa|tarsum+sha256bb''"
  by (simp add: Cookie_def req_badsum_def)

lemma store_mark_exists:
  "Storage_Exists store_mark (ImageJsonPath ''abc'')"
  "Storage_Exists store_mark (ImageMarkPath ''abc'')"
  by (simp_all add: Storage_Exists_def store_mark_def)

lemma badsum_not_member:
  "''sha256:bad'' \<notin> set (Split ''sha256:aa|tarsum+sha256bb'' COOKIE_SEPARATOR)"
  unfolding Split_example by simp

lemma store_mark_checksum:
  "blobs (fst (StoreChecksum store_mark ''abc'' ''sha256:bad'')) =
     (blobs store_mark)(ImageChecksumPath ''abc'' \<mapsto> ''sha256:bad'')"
  by (simp add: StoreChecksum_def Storage_Put_def store_mark_def no_faults_def)

lemma run_badsum:
  "PutImageChecksumHandler store_mark ''abc'' req_badsum =
     (fst (StoreChecksum store_mark ''abc'' ''sha256:bad''),
      respond [] (Text ''Checksum mismatch'') 400 EMPTY_HEADERS)"
  unfolding PutImageChecksumHandler_def Let_def badsum_header badsum_cookie
  using store_mark_exists badsum_not_member
  by (simp add: map_get_checksumMap_loop)

theorem PutImageChecksum_mismatch_witness:
  "status (snd (PutImageChecksumHandler store_mark ''abc'' req_badsum)) = 400 \<and>
   blobs (fst (PutImageChecksumHandler store_mark ''abc'' req_badsum)) (ImageMarkPath ''abc'')
     = blobs store_mark (ImageMarkPath ''abc'') \<and>
   blobs (fst (PutImageChecksumHandler store_mark ''abc'' req_badsum))
     = (blobs store_mark)(ImageChecksumPath ''abc'' \<mapsto> ''sha256:bad'')"
proof -
  have 4: "''sha256:bad'' \<noteq> []" by simp
  have 7: "PutImageChecksumHandler store_mark ''abc'' req_badsum =
             (fst (PutImageChecksumHandler store_mark ''abc'' req_badsum),
              snd (PutImageChecksumHandler store_mark ''abc'' req_badsum))"
    by simp
  have nf: "\<not> faulty store_mark OpPut (ImageChecksumPath ''abc'')"
    by (simp add: store_mark_def no_faults_def)
  from PutImageChecksum_mismatch
         [OF store_mark_exists badsum_header 4 badsum_cookie badsum_not_member 7] nf
  show ?thesis by simp
qed

text \<open>
  The claim as stated fails: on this store and request the response is 400 and the
  checksum blob, absent before, holds the rejected header value afterwards.
\<close>

theorem PutImageChecksum_mismatch_changes_state:
  "Storage_Exists store_mark (ImageJsonPath ''abc'') \<and>
   Storage_Exists store_mark (ImageMarkPath ''abc'') \<and>
   Header_Get (req_headers req_badsum) ''X-Docker-Checksum'' = ''sha256:bad'' \<and>
   Cookie req_badsum ''checksum'' = Some ''sha256:aa|tarsum+sha256bb'' \<and>
   ''sha256:bad'' \<notin> set (Split ''sha256:aa|tarsum+sha256bb'' COOKIE_SEPARATOR) \<and>
   status (snd (PutImageChecksumHandler store_mark ''abc'' req_badsum)) = 400 \<and>
   blobs store_mark (ImageChecksumPath ''abc'') = None \<and>
   blobs (fst (PutImageChecksumHandler store_mark ''abc'' req_badsum)) (ImageChecksumPath ''abc'')
     = Some ''sha256:bad''"
proof -
  have "blobs store_mark (ImageChecksumPath ''abc'') = None"
    by (simp add: store_mark_def)
  then show ?thesis
    using store_mark_exists badsum_header badsum_cookie badsum_not_member
    by (simp add: run_badsum store_mark_checksum respond_def)
qed

section \<open>PutImageJsonHandler\<close>

lemma PutImageJson_write_reject:
  assumes "PutImageJson_write E s imageID parentID bodyBytes = (s', resp)"
    and "status resp = 400 \<or> status resp = 409"
  shows "s' = s"
  using assms
  by (auto simp add: PutImageJson_write_def Let_def respond_def
      split: if_splits prod.splits option.splits)

lemma PutImageJson_checks_reject:
  assumes "PutImageJson_checks E s imageID data bodyBytes = (s', resp)"
    and "status resp = 400 \<or> status resp = 409"
  shows "s' = s"
  using assms
  by (auto simp add: PutImageJson_checks_def respond_def
      split: if_splits option.splits jv.splits dest: PutImageJson_write_reject)















lemma PutImageLayerHandler_ancestry:
  "blobs (fst (PutImageLayerHandler E s imageID r)) (ImageAncestryPath i)
     = blobs s (ImageAncestryPath i)"
  by (auto simp add: PutImageLayerHandler_def PutImageLayer_stored_def Let_def
      Storage_PutReader_def Storage_Remove_def SetImageFilesCache_def Storage_Put_def
      split: sum.splits option.splits if_splits prod.splits)

lemma PutImageChecksumHandler_ancestry:
  "blobs (fst (PutImageChecksumHandler s imageID r)) (ImageAncestryPath i)
     = blobs s (ImageAncestryPath i)"
  by (auto simp add: PutImageChecksumHandler_def Let_def
      Storage_Remove_def StoreChecksum_def Storage_Put_def
      split: sum.splits option.splits if_splits prod.splits)

lemma PutRepoTagHandler_ancestry:
  "blobs (fst (PutRepoTagHandler E namespace repo tag s r)) (ImageAncestryPath i)
     = blobs s (ImageAncestryPath i)"
  by (auto simp add: PutRepoTagHandler_def Let_def Storage_Put_def
      split: sum.splits option.splits if_splits prod.splits)

lemma ancestry_inv_empty: "ancestry_inv E store_empty"
  by (simp add: ancestry_inv_def store_empty_def)





text \<open>
  C10. A PutJson request that passes the body, JSON and \<open>id\<close>-present checks and is then
  rejected with 400 or 409 leaves the store exactly as the first storage action left
  it: with the \<open>X-Docker-Checksum\<close> header absent the stored checksum has been removed,
  with the header present it has been overwritten, before the later checks ran.
\<close>

theorem PutImageJson_rejection_not_atomic:
  assumes "\<not> req_body_fails r"
    and "Unmarshal_map E (req_body r) = Some data"
    and "map_of data ''id'' \<noteq> None"
    and "Header_Get (req_headers r) ''X-Docker-Checksum'' = checksum"
    and "PutImageJsonHandler E s imageID r = (s', resp)"
    and "status resp = 400 \<or> status resp = 409"
  shows "s' =
           (if checksum = [] then fst (Storage_Remove s (ImageChecksumPath imageID))
            else fst (StoreChecksum s imageID checksum))"
proof (cases "checksum = []")
  case True
  with assms have "PutImageJson_checks E (fst (Storage_Remove s (ImageChecksumPath imageID)))
        imageID data (req_body r) = (s', resp)"
    by (auto simp add: PutImageJsonHandler_def Let_def)
  from PutImageJson_checks_reject [OF this assms(6)] True show ?thesis by simp
next
  case False
  obtain s1 e where st: "StoreChecksum s imageID checksum = (s1, e)" by (cases "StoreChecksum s imageID checksum")
  show ?thesis
  proof (cases e)
    case None
    with assms False st have "PutImageJson_checks E s1 imageID data (req_body r) = (s', resp)"
      by (auto simp add: PutImageJsonHandler_def Let_def)
    from PutImageJson_checks_reject [OF this assms(6)] False st show ?thesis by simp
  next
    case (Some err)
    with assms False st show ?thesis
      by (auto simp add: PutImageJsonHandler_def Let_def)
  qed
qed

theorem PutImageJson_rejection_not_atomic_witness:
  "status (snd (PutImageJsonHandler env_toy store_parent ''abc'' req_wrong_id)) = 400 \<and>
   blobs store_parent (ImageChecksumPath ''abc'') = Some ''sha256:old'' \<and>
   blobs (fst (PutImageJsonHandler env_toy store_parent ''abc'' req_wrong_id))
     (ImageChecksumPath ''abc'') = None"
proof -
  let ?run = "PutImageJsonHandler env_toy store_parent ''abc'' req_wrong_id"
  have 1: "\<not> req_body_fails req_wrong_id" by (simp add: req_wrong_id_def)
  have 2: "Unmarshal_map env_toy (req_body req_wrong_id) = Some [(''id'', JStr ''xyz'')]"
    by (simp add: Unmarshal_map_def env_toy_def toy_Unmarshal_def req_wrong_id_def)
  have 3: "map_of [(''id'', JStr ''xyz'')] ''id'' \<noteq> None" by simp
  have 4: "Header_Get (req_headers req_wrong_id) ''X-Docker-Checksum'' = []"
    by (simp add: Header_Get_def req_wrong_id_def)
  have 5: "?run = (fst ?run, snd ?run)" by simp
  have st: "status (snd ?run) = 400"
    by (simp add: PutImageJsonHandler_def PutImageJson_checks_def Unmarshal_map_def
        Header_Get_def respond_def Let_def env_toy_def toy_Unmarshal_def req_wrong_id_def)
  then have 6: "status (snd ?run) = 400 \<or> status (snd ?run) = 409" by simp
  from PutImageJson_rejection_not_atomic [OF 1 2 3 4 5 6] st show ?thesis
    by (simp add: Storage_Remove_def store_parent_def no_faults_def)
qed

section \<open>PutImageLayerHandler\<close>

lemma hexdigit_not_sep: "hexdigit n \<noteq> CHR ''|''"
proof -
  have "''0123456789abcdef'' ! (n mod 16) \<in> set ''0123456789abcdef''"
    by (rule nth_mem) simp
  moreover have "CHR ''|'' \<notin> set ''0123456789abcdef''" by simp
  ultimately show ?thesis unfolding hexdigit_def by metis
qed

lemma hex_no_sep: "CHR ''|'' \<notin> set (hex_EncodeToString b)"
  by (induction b) (simp_all add: hexdigit_not_sep [symmetric])

lemma cookie_loop_concat:
  "cookie_loop acc ds = acc @ concat (map (\<lambda>d. d @ [COOKIE_SEPARATOR]) ds)"
  by (induction ds arbitrary: acc) simp_all

lemma Split_not_Nil: "Split xs c \<noteq> []"
  by (induction xs) (simp_all split: list.splits)

lemma Split_no_sep: "c \<notin> set d \<Longrightarrow> Split d c = [d]"
  by (induction d) auto

lemma Split_append_sep: "c \<notin> set d \<Longrightarrow> Split (d @ c # rest) c = d # Split rest c"
  by (induction d) auto

lemma join_Cons: "ds \<noteq> [] \<Longrightarrow> join c (d # ds) = d @ c # join c ds"
  by (cases ds) (simp_all add: join_def butlast_append)

lemma join_single: "join c [d] = d"
  by (simp add: join_def)

lemma Split_join:
  "ds \<noteq> [] \<Longrightarrow> \<forall>d \<in> set ds. c \<notin> set d \<Longrightarrow> Split (join c ds) c = ds"
proof (induction ds)
  case Nil then show ?case by simp
next
  case (Cons d ds)
  show ?case
  proof (cases "ds = []")
    case True with Cons.prems show ?thesis by (simp add: join_single Split_no_sep)
  next
    case False
    with Cons show ?thesis by (simp add: join_Cons Split_append_sep)
  qed
qed

lemma TrimSuffix_cookie:
  "ds \<noteq> [] \<Longrightarrow>
   TrimSuffix (concat (map (\<lambda>d. d @ [c]) ds)) [c] = join c ds"
proof -
  assume "ds \<noteq> []"
  then obtain ds' d where ds: "ds = ds' @ [d]" by (metis rev_exhaust)
  show ?thesis
    by (simp add: ds TrimSuffix_def HasSuffix_def join_def butlast_append)
qed

lemma join_last:
  "ds \<noteq> [] \<Longrightarrow> \<forall>d \<in> set ds. d \<noteq> [] \<and> c \<notin> set d \<Longrightarrow> join c ds \<noteq> [] \<and> last (join c ds) \<noteq> c"
proof (induction ds)
  case Nil then show ?case by simp
next
  case (Cons d ds)
  show ?case
  proof (cases "ds = []")
    case True with Cons.prems show ?thesis
      by (auto simp add: join_single)
  next
    case False
    with Cons show ?thesis by (simp add: join_Cons)
  qed
qed

lemma Load_loop_fields:
  "tarsum (Load_loop H t es fin) = foldl (Append H) (tarsum t) es"
  "headers (filesinfo (Load_loop H t es fin)) = headers (filesinfo t) @ map hdr es"
  "tar_error (Load_loop H t es fin) = (case fin of None \<Rightarrow> tar_error t | Some m \<Rightarrow> Some m)"
  by (induction H t es fin rule: Load_loop.induct)
     (simp_all add: TarFilesInfo_Append_def split: option.splits)

lemma Load_fields:
  assumes "ut file = (es, fin)"
  shows "tarsum (Load H ut (NewTarInfo sd) file) = foldl (Append H) (NewTarSum sd) es"
    and "headers (filesinfo (Load H ut (NewTarInfo sd) file)) = map hdr es"
    and "tar_error (Load H ut (NewTarInfo sd) file) = fin"
  using assms
  by (simp_all add: Load_def Load_loop_fields NewTarInfo_def NewTarFilesInfo_def split: option.splits)

lemma stored_cookie:
  assumes "Storage_Get s (ImageChecksumPath imageID) = Inl e"
    and "range_order E (map fst checksums) = ds" and "ds \<noteq> []"
  shows "PutImageLayer_stored E s imageID checksums =
           (s, respond (SetCookie [] ''checksum'' (join COOKIE_SEPARATOR ds)) (Flag True) 200
                 EMPTY_HEADERS)"
  using assms
  by (simp add: PutImageLayer_stored_def Let_def cookie_loop_concat TrimSuffix_cookie)

text \<open>The handler once the JSON is read, no conflict is found and the layer is written.\<close>

lemma PutImageLayerHandler_written:
  assumes j: "Storage_Get s (ImageJsonPath imageID) = Inr jsonContent"
    and c: "\<not> (Storage_Exists s (ImageLayerPath imageID) \<and> \<not> Storage_Exists s (ImageMarkPath imageID))"
    and f: "\<not> faulty s OpPutReader (ImageLayerPath imageID)"
    and u: "untar E (req_body r) = (es, fin)"
  shows "PutImageLayerHandler E s imageID r =
     (let s1 = layer_written s imageID (req_body r);
          sums = [(sha_digest E jsonContent (req_body r), True)]
      in case fin of
           Some msg \<Rightarrow> PutImageLayer_stored E s1 imageID sums
         | None \<Rightarrow>
             (case json_Marshal E (JArr (Json_loop [] (map hdr es))) of
                None \<Rightarrow> (s1, respond [] (TextErr ''Internal Error: '' json_error) 500 EMPTY_HEADERS)
              | Some filesJson \<Rightarrow>
                  PutImageLayer_stored E (fst (SetImageFilesCache s1 imageID filesJson)) imageID
                    (map_set sums (tarsum_digest E jsonContent es) True)))"
proof -
  let ?ti = "Load (sha256 E) (untar E) (NewTarInfo jsonContent) (req_body r)"
  have pr: "Storage_PutReader s (ImageLayerPath imageID) (req_body r)
              (Load (sha256 E) (untar E) (NewTarInfo jsonContent)) =
            (layer_written s imageID (req_body r), Inr ?ti)"
    using f by (simp add: Storage_PutReader_def layer_written_def)
  have te: "tar_error ?ti = fin" using u by (rule Load_fields(3))
  have ts: "fst (Compute (sha256 E) (tarsum ?ti)) = tarsum_digest E jsonContent es"
    using u by (simp add: Load_fields(1) Compute_foldl_Append tarsum_digest_def)
  have js: "Json (json_Marshal E) (filesinfo ?ti) = json_Marshal E (JArr (Json_loop [] (map hdr es)))"
    using u by (simp add: Json_def Load_fields(2))
  show ?thesis
  proof (cases fin)
    case None
    with te have "tar_error ?ti = None" by simp
    with j c pr ts js None show ?thesis
      by (auto simp add: PutImageLayerHandler_def Let_def sha_digest_def split: option.splits)
  next
    case (Some msg)
    with te have "tar_error ?ti \<noteq> None" by simp
    with j c pr Some show ?thesis
      by (auto simp add: PutImageLayerHandler_def Let_def sha_digest_def)
  qed
qed

lemma sha_digest_no_sep: "COOKIE_SEPARATOR \<notin> set (sha_digest E j b)" "sha_digest E j b \<noteq> []"
  using hex_no_sep by (simp_all add: sha_digest_def COOKIE_SEPARATOR_def)

lemma tarsum_digest_no_sep:
  "COOKIE_SEPARATOR \<notin> set (tarsum_digest E j es)" "tarsum_digest E j es \<noteq> []"
  using hex_no_sep by (simp_all add: tarsum_digest_def COOKIE_SEPARATOR_def)

lemma digests_differ: "sha_digest E j b \<noteq> tarsum_digest E j es"
  by (simp add: sha_digest_def tarsum_digest_def)

lemma range_order_single:
  assumes "\<And>ks. mset (range_order E ks) = mset ks"
  shows "range_order E [k] = [k]"
proof -
  have "mset (range_order E [k]) = {#k#}" using assms [of "[k]"] by simp
  then show ?thesis by (simp add: mset_single_iff_right)
qed



lemma stored_status:
  "status (snd (PutImageLayer_stored E s imageID sums)) =
     (case Storage_Get s (ImageChecksumPath imageID) of
        Inl e \<Rightarrow> 200
      | Inr c \<Rightarrow> if \<not> map_get sums c then 400
                 else if faulty s OpRemove (ImageMarkPath imageID) then 500 else 200)"
  by (simp add: PutImageLayer_stored_def Let_def Storage_Remove_def respond_def
      split: sum.splits)


lemma perm_pair:
  assumes "mset ds = mset [a, b]" and "a \<noteq> b"
  shows "ds \<noteq> [] \<and> distinct ds \<and> set ds = {a, b}"
proof -
  have "distinct [a, b]" using assms(2) by simp
  then have "distinct ds" using assms(1) by (metis mset_eq_imp_distinct_iff)
  moreover have "set ds = {a, b}" using assms(1) by (metis mset_eq_setD list.simps(15) empty_set)
  ultimately show ?thesis by auto
qed

lemma Put_files_blobs:
  "k \<noteq> ImageFilesPath imageID \<Longrightarrow>
   blobs (fst (SetImageFilesCache s imageID fj)) k = blobs s k"
  by (simp add: SetImageFilesCache_def Storage_Put_def)

lemma Get_checksum_absent:
  "blobs s (ImageChecksumPath imageID) = None \<Longrightarrow>
   \<exists>e. Storage_Get s (ImageChecksumPath imageID) = Inl e"
  by (simp add: Storage_Get_def)

text \<open>
  C1, as the code has it. For a PutLayer request on an image whose json blob exists and
  for which no checksum blob is stored, a response of 200 leaves the mark blob as it
  was before the request (the handler never writes it) and the layer stored; the
  response carries the header \<open>Set-Cookie: checksum=v\<close>, where \<open>v\<close> is not empty, does
  not end with the separator, and splits at the separator into distinct digests, which
  are the SHA-256 digest of the JSON followed by the stream and, exactly when the tar
  reader ended without error, the tarsum digest.
\<close>

theorem PutImageLayer_first_success:
  assumes run: "PutImageLayerHandler E s imageID r = (s', resp)"
    and ok: "status resp = 200"
    and json: "blobs s (ImageJsonPath imageID) = Some jsonContent"
    and nock: "blobs s (ImageChecksumPath imageID) = None"
    and u: "untar E (req_body r) = (es, fin)"
    and perm: "\<And>ks. mset (range_order E ks) = mset ks"
  shows "blobs s' (ImageMarkPath imageID) = blobs s (ImageMarkPath imageID) \<and>
         blobs s' (ImageJsonPath imageID) = Some jsonContent \<and>
         blobs s' (ImageLayerPath imageID) = Some (req_body r) \<and>
         (\<exists>v. headers_out resp = [(''Set-Cookie'', [''checksum='' @ v])] \<and>
              v \<noteq> [] \<and> last v \<noteq> COOKIE_SEPARATOR \<and>
              distinct (Split v COOKIE_SEPARATOR) \<and>
              set (Split v COOKIE_SEPARATOR) =
                (if fin = None
                 then {sha_digest E jsonContent (req_body r), tarsum_digest E jsonContent es}
                 else {sha_digest E jsonContent (req_body r)}))"
proof -
  let ?s1 = "layer_written s imageID (req_body r)"
  let ?sha = "sha_digest E jsonContent (req_body r)"
  let ?ts = "tarsum_digest E jsonContent es"
  have j: "Storage_Get s (ImageJsonPath imageID) = Inr jsonContent"
    using run ok json
    by (auto simp add: PutImageLayerHandler_def Storage_Get_def respond_def split: if_splits)
  have c: "\<not> (Storage_Exists s (ImageLayerPath imageID) \<and>
               \<not> Storage_Exists s (ImageMarkPath imageID))"
    using run ok j
    by (auto simp add: PutImageLayerHandler_def Let_def respond_def split: if_splits)
  have f: "\<not> faulty s OpPutReader (ImageLayerPath imageID)"
    using run ok j c
    by (auto simp add: PutImageLayerHandler_def Let_def respond_def Storage_PutReader_def
        split: if_splits)
  note w = PutImageLayerHandler_written [OF j c f u]
  show ?thesis
  proof (cases fin)
    case (Some msg)
    from Get_checksum_absent [of ?s1 imageID] nock obtain e where
      g: "Storage_Get ?s1 (ImageChecksumPath imageID) = Inl e"
      by (auto simp add: layer_written_def)
    have ro: "range_order E (map fst [(?sha, True)]) = [?sha]"
      using range_order_single [OF perm] by simp
    from stored_cookie [OF g ro] w run Some have
      r: "s' = ?s1" "resp = respond (SetCookie [] ''checksum'' ?sha) (Flag True) 200 EMPTY_HEADERS"
      by (simp_all add: Let_def join_single)
    have sp: "Split ?sha COOKIE_SEPARATOR = [?sha]"
      by (rule Split_no_sep) (rule sha_digest_no_sep)
    have l: "last ?sha \<noteq> COOKIE_SEPARATOR"
      using sha_digest_no_sep [of E jsonContent "req_body r"] by (metis last_in_set)
    show ?thesis
      using r Some json sp l sha_digest_no_sep(2) [of E jsonContent "req_body r"]
      by (simp add: layer_written_def respond_def SetCookie_def EMPTY_HEADERS_def)
  next
    case None
    from w run ok None obtain fj where
      m: "json_Marshal E (JArr (Json_loop [] (map hdr es))) = Some fj"
      by (auto simp add: Let_def respond_def split: option.splits)
    let ?s2 = "fst (SetImageFilesCache ?s1 imageID fj)"
    let ?ds = "range_order E [?sha, ?ts]"
    have keys: "map fst (map_set [(?sha, True)] ?ts True) = [?sha, ?ts]"
      using digests_differ [of E jsonContent "req_body r" es] by (simp add: map_set_def)
    have "blobs ?s2 (ImageChecksumPath imageID) = None"
      using nock by (simp add: Put_files_blobs layer_written_def)
    from Get_checksum_absent [OF this] obtain e where
      g: "Storage_Get ?s2 (ImageChecksumPath imageID) = Inl e" by blast
    have p: "?ds \<noteq> [] \<and> distinct ?ds \<and> set ?ds = {?sha, ?ts}"
      by (rule perm_pair) (simp_all add: perm digests_differ)
    have ro: "range_order E (map fst (map_set [(?sha, True)] ?ts True)) = ?ds"
      by (simp add: keys)
    from stored_cookie [OF g ro] p w run None m have
      r: "s' = ?s2"
         "resp = respond (SetCookie [] ''checksum'' (join COOKIE_SEPARATOR ?ds)) (Flag True) 200
                   EMPTY_HEADERS"
      by (simp_all add: Let_def)
    have nosep: "\<forall>d \<in> set ?ds. d \<noteq> [] \<and> COOKIE_SEPARATOR \<notin> set d"
      using p sha_digest_no_sep [of E jsonContent "req_body r"]
        tarsum_digest_no_sep [of E jsonContent es] by auto
    then have nosep': "\<forall>d \<in> set ?ds. COOKIE_SEPARATOR \<notin> set d" by blast
    have sp: "Split (join COOKIE_SEPARATOR ?ds) COOKIE_SEPARATOR = ?ds"
      using p nosep' by (intro Split_join) simp_all
    have l: "join COOKIE_SEPARATOR ?ds \<noteq> [] \<and> last (join COOKIE_SEPARATOR ?ds) \<noteq> COOKIE_SEPARATOR"
      using p nosep by (intro join_last) simp_all
    have b: "blobs s' (ImageMarkPath imageID) = blobs s (ImageMarkPath imageID)"
         "blobs s' (ImageJsonPath imageID) = Some jsonContent"
         "blobs s' (ImageLayerPath imageID) = Some (req_body r)"
      using r(1) json by (simp_all add: Put_files_blobs layer_written_def)
    have h: "headers_out resp = [(''Set-Cookie'', [''checksum='' @ join COOKIE_SEPARATOR ?ds])]"
      using r(2) by (simp add: respond_def SetCookie_def EMPTY_HEADERS_def)
    show ?thesis
      using b h sp l p None by auto
  qed
qed

lemma sort_two_digests': "sort [''37'', ''63''] = [''37'', ''63'']"
  by (simp add: less_char_def less_eq_char_def)

lemma sha_layer: "sha_digest env_layer ''{\"id\":\"abc\"}'' ''tarball'' = ''sha256:6c''"
  by (simp add: sha_digest_def env_layer_def lastbyte_def hexdigit_def)

lemma tarsum_layer: "tarsum_digest env_layer ''{\"id\":\"abc\"}'' [ent2, ent1] = ''tarsum+sha25633''"
  by (simp add: tarsum_digest_def env_layer_def digest_ent1 digest_ent2 sort_two_digests'
      lastbyte_def hexdigit_def)

lemma store_mark_layer:
  "Storage_Get store_mark (ImageJsonPath ''abc'') = Inr ''{\"id\":\"abc\"}''"
  "\<not> (Storage_Exists store_mark (ImageLayerPath ''abc'') \<and>
      \<not> Storage_Exists store_mark (ImageMarkPath ''abc''))"
  "\<not> faulty store_mark OpPutReader (ImageLayerPath ''abc'')"
  "blobs store_mark (ImageJsonPath ''abc'') = Some ''{\"id\":\"abc\"}''"
  "blobs store_mark (ImageChecksumPath ''abc'') = None"
  "blobs store_mark (ImageMarkPath ''abc'') = Some ''true''"
  by (simp_all add: Storage_Get_def Storage_Exists_def store_mark_def no_faults_def)

lemma untar_tarball: "untar env_layer (req_body (req_layer ''tarball'')) = ([ent2, ent1], None)"
  by (simp add: env_layer_def untar_toy_def req_layer_def)

lemma perm_layer: "mset (range_order env_layer ks) = mset ks"
  by (simp add: env_layer_def)

lemma status_tarball:
  "status (snd (PutImageLayerHandler env_layer store_mark ''abc'' (req_layer ''tarball''))) = 200"
proof -
  let ?s1 = "layer_written store_mark ''abc'' (req_body (req_layer ''tarball''))"
  let ?s2 = "fst (SetImageFilesCache ?s1 ''abc'' ''[]'')"
  have "blobs ?s2 (ImageChecksumPath ''abc'') = None"
    by (simp add: Put_files_blobs layer_written_def store_mark_layer)
  from Get_checksum_absent [OF this] obtain e where
    g: "Storage_Get ?s2 (ImageChecksumPath ''abc'') = Inl e" by blast
  have m: "json_Marshal env_layer v = Some ''[]''" for v by (simp add: env_layer_def)
  show ?thesis
    unfolding PutImageLayerHandler_written [OF store_mark_layer(1,2,3) untar_tarball] Let_def
    by (simp add: m stored_status g)
qed

theorem PutImageLayer_first_success_witness:
  "status (snd (PutImageLayerHandler env_layer store_mark ''abc'' (req_layer ''tarball''))) = 200 \<and>
   blobs (fst (PutImageLayerHandler env_layer store_mark ''abc'' (req_layer ''tarball'')))
     (ImageMarkPath ''abc'') = Some ''true'' \<and>
   (\<exists>v. headers_out (snd (PutImageLayerHandler env_layer store_mark ''abc'' (req_layer ''tarball'')))
          = [(''Set-Cookie'', [''checksum='' @ v])] \<and>
        set (Split v COOKIE_SEPARATOR) = {''sha256:6c'', ''tarsum+sha25633''})"
proof -
  let ?run = "PutImageLayerHandler env_layer store_mark ''abc'' (req_layer ''tarball'')"
  have run: "?run = (fst ?run, snd ?run)" by simp
  from PutImageLayer_first_success [OF run status_tarball store_mark_layer(4,5) untar_tarball perm_layer]
  show ?thesis
    using status_tarball store_mark_layer(6)
    by (auto simp add: req_layer_def sha_layer tarsum_layer)
qed

lemma store_unmarked_layer:
  "Storage_Get store_unmarked (ImageJsonPath ''abc'') = Inr ''{\"id\":\"abc\"}''"
  "\<not> (Storage_Exists store_unmarked (ImageLayerPath ''abc'') \<and>
      \<not> Storage_Exists store_unmarked (ImageMarkPath ''abc''))"
  "\<not> faulty store_unmarked OpPutReader (ImageLayerPath ''abc'')"
  "blobs store_unmarked (ImageJsonPath ''abc'') = Some ''{\"id\":\"abc\"}''"
  "blobs store_unmarked (ImageChecksumPath ''abc'') = None"
  "blobs store_unmarked (ImageMarkPath ''abc'') = None"
  by (simp_all add: Storage_Get_def Storage_Exists_def store_unmarked_def no_faults_def)

lemma untar_garbage: "untar env_layer (req_body (req_layer ''garbage'')) = ([], Some ''unexpected EOF'')"
  by (simp add: env_layer_def untar_toy_def req_layer_def)

lemma run_unmarked:
  "PutImageLayerHandler env_layer store_unmarked ''abc'' (req_layer ''garbage'') =
     (layer_written store_unmarked ''abc'' ''garbage'',
      respond (SetCookie [] ''checksum'' (sha_digest env_layer ''{\"id\":\"abc\"}'' ''garbage''))
        (Flag True) 200 EMPTY_HEADERS)"
proof -
  let ?s1 = "layer_written store_unmarked ''abc'' ''garbage''"
  have "blobs ?s1 (ImageChecksumPath ''abc'') = None"
    by (simp add: layer_written_def store_unmarked_layer)
  from Get_checksum_absent [OF this] obtain e where
    g: "Storage_Get ?s1 (ImageChecksumPath ''abc'') = Inl e" by blast
  have ro: "range_order env_layer
              (map fst [(sha_digest env_layer ''{\"id\":\"abc\"}'' ''garbage'', True)]) =
            [sha_digest env_layer ''{\"id\":\"abc\"}'' ''garbage'']"
    by (simp add: env_layer_def)
  have rb: "req_body (req_layer ''garbage'') = ''garbage''" by (simp add: req_layer_def)
  show ?thesis
    unfolding PutImageLayerHandler_written [OF store_unmarked_layer(1,2,3) untar_garbage] Let_def rb
    using stored_cookie [OF g ro] by (simp add: join_single)
qed

text \<open>
  The claim as stated fails on a store that holds the json blob and no mark (a store
  the handlers produce, see \<open>store_unmarked_reachable\<close> below): the upload answers 200
  and no mark blob is present afterwards.
\<close>

theorem PutImageLayer_mark_absent:
  "blobs store_unmarked (ImageJsonPath ''abc'') = Some ''{\"id\":\"abc\"}'' \<and>
   blobs store_unmarked (ImageChecksumPath ''abc'') = None \<and>
   status (snd (PutImageLayerHandler env_layer store_unmarked ''abc'' (req_layer ''garbage''))) = 200 \<and>
   blobs (fst (PutImageLayerHandler env_layer store_unmarked ''abc'' (req_layer ''garbage'')))
     (ImageMarkPath ''abc'') = None"
  by (simp add: run_unmarked store_unmarked_layer respond_def layer_written_def)



text \<open>
  The store of the counterexample arises from the empty store by a PutJson, a
  PutChecksum whose cookie holds its header value, and a second PutJson, which is
  rejected with 409 after it removed the checksum.
\<close>

lemma first_parse:
  "Unmarshal_map env_toy (req_body req_first) = Some [(''id'', JStr ''abc'')]"
  "Header_Get (req_headers req_first) ''X-Docker-Checksum'' = []"
  "\<not> req_body_fails req_first"
  by (simp_all add: Unmarshal_map_def env_toy_def toy_Unmarshal_def req_first_def Header_Get_def)

lemma first_checks:
  "PutImageJson_checks env_toy s ''abc'' [(''id'', JStr ''abc'')] b =
     PutImageJson_write env_toy s ''abc'' [] b"
  by (simp add: PutImageJson_checks_def)

lemma first_handler:
  "PutImageJsonHandler env_toy s ''abc'' req_first =
     PutImageJson_write env_toy (fst (Storage_Remove s (ImageChecksumPath ''abc''))) ''abc'' []
       (req_body req_first)"
  by (simp add: PutImageJsonHandler_def first_parse first_checks)

lemma step1:
  "PutImageJsonHandler env_toy store_empty ''abc'' req_first =
     (store_staged, respond [] (Text ''true'') 200 EMPTY_HEADERS)"
  unfolding first_handler
  by (simp add: PutImageJson_write_def Let_def Storage_Remove_def Storage_Exists_def
      Storage_Put_def GenerateAncestry_def store_empty_def store_staged_def no_faults_def
      env_toy_def toy_Marshal_def req_first_def)

lemma step2:
  "blobs (fst (PutImageChecksumHandler store_staged ''abc'' req_confirm)) =
     [ImageJsonPath ''abc'' \<mapsto> ''{\"id\":\"abc\"}'', ImageAncestryPath ''abc'' \<mapsto> ''[\"abc\"]'',
      ImageChecksumPath ''abc'' \<mapsto> ''sha256:aa''] \<and>
   faulty (fst (PutImageChecksumHandler store_staged ''abc'' req_confirm)) = no_faults"
proof -
  have h: "Header_Get (req_headers req_confirm) ''X-Docker-Checksum'' = ''sha256:aa''"
    and c: "Cookie req_confirm ''checksum'' = Some ''sha256:aa''"
    by (simp_all add: Header_Get_def Cookie_def req_confirm_def)
  have m: "''sha256:aa'' \<in> set (Split ''sha256:aa'' COOKIE_SEPARATOR)"
    by (simp add: COOKIE_SEPARATOR_def)
  have e: "Storage_Exists store_staged (ImageJsonPath ''abc'')"
          "Storage_Exists store_staged (ImageMarkPath ''abc'')"
    by (simp_all add: Storage_Exists_def store_staged_def)
  have "PutImageChecksumHandler store_staged ''abc'' req_confirm =
          (fst (Storage_Remove (fst (StoreChecksum store_staged ''abc'' ''sha256:aa''))
                  (ImageMarkPath ''abc'')),
           respond [] (Flag True) 200 EMPTY_HEADERS)"
    unfolding PutImageChecksumHandler_def Let_def h c
    using e m by (simp add: map_get_checksumMap_loop)
  then show ?thesis
    by (auto simp add: Storage_Remove_def StoreChecksum_def Storage_Put_def store_staged_def
        no_faults_def fun_eq_iff)
qed

lemma step3:
  assumes "blobs s = [ImageJsonPath ''abc'' \<mapsto> ''{\"id\":\"abc\"}'', ImageAncestryPath ''abc'' \<mapsto> ''[\"abc\"]'',
                      ImageChecksumPath ''abc'' \<mapsto> ''sha256:aa'']"
    and "faulty s = no_faults"
  shows "status (snd (PutImageJsonHandler env_toy s ''abc'' req_first)) = 409 \<and>
         blobs (fst (PutImageJsonHandler env_toy s ''abc'' req_first)) = blobs store_unmarked"
  unfolding first_handler
  using assms
  by (auto simp add: PutImageJson_write_def Let_def Storage_Remove_def Storage_Exists_def
      respond_def store_unmarked_def no_faults_def fun_eq_iff)

lemma store_unmarked_reachable:
  "blobs (fst (PutImageJsonHandler env_toy
                 (fst (PutImageChecksumHandler
                         (fst (PutImageJsonHandler env_toy store_empty ''abc'' req_first))
                         ''abc'' req_confirm))
                 ''abc'' req_first)) = blobs store_unmarked"
  using step2 step3 by (simp add: step1)

section \<open>GetImageJsonHandler\<close>

text \<open>
  When the JSON is read, the response carries \<open>X-Docker-Checksum\<close> exactly when the
  checksum blob exists and reading it fails, and then with the empty value.
\<close>

lemma GetImageJson_checksum_header:
  assumes "Storage_Get s (ImageJsonPath imageID) = Inr d"
  shows "map_of (headers_out (snd (GetImageJsonHandler E imageID s r))) ''X-Docker-Checksum'' =
           (if Storage_Exists s (ImageChecksumPath imageID) \<and>
               (\<exists>e. Storage_Get s (ImageChecksumPath imageID) = Inl e)
            then Some [[]] else None)"
  using assms
  by (auto simp add: GetImageJsonHandler_def Let_def respond_def update_conv'
      DefaultCacheHeaders_def split: sum.splits)

lemma store_complete_reads:
  "Storage_Get store_complete (ImageJsonPath ''abc'') = Inr ''{\"id\":\"abc\"}''"
  "Storage_Get store_complete (ImageChecksumPath ''abc'') = Inr ''sha256:6c''"
  "Storage_Exists store_complete (ImageChecksumPath ''abc'')"
  by (simp_all add: Storage_Get_def Storage_Exists_def store_complete_def no_faults_def)

lemma GetImageJson_status:
  assumes "Storage_Get s (ImageJsonPath imageID) = Inr d"
  shows "status (snd (GetImageJsonHandler E imageID s r)) = 200"
  using assms by (simp add: GetImageJsonHandler_def Let_def respond_def)

text \<open>
  C7. On a store where the image is complete and its checksum is stored and readable,
  GET image JSON answers 200 without an \<open>X-Docker-Checksum\<close> header: the stored
  checksum is available and the header is not set from it.
\<close>

theorem GetImageJson_omits_stored_checksum:
  "Storage_Exists store_complete (ImageChecksumPath ''abc'') \<and>
   Storage_Get store_complete (ImageChecksumPath ''abc'') = Inr ''sha256:6c'' \<and>
   status (snd (GetImageJsonHandler E ''abc'' store_complete r)) = 200 \<and>
   map_of (headers_out (snd (GetImageJsonHandler E ''abc'' store_complete r)))
     ''X-Docker-Checksum'' = None"
  by (simp add: GetImageJson_checksum_header [OF store_complete_reads(1)]
      GetImageJson_status [OF store_complete_reads(1)] store_complete_reads)

section \<open>Repository metadata\<close>

lemma ua_tokens:
  "FindAllStringSubmatch docker_user_agent =
     [(''docker'', ''1.2''), (''go'', ''1.3''), (''arch'', ''AMD64''), (''os'', ''Linux''),
      (''kernel'', ''3.10'')]"
  by (simp add: FindAllStringSubmatch_def is_token_char_def docker_user_agent_def)

lemma ToLower_examples:
  "ToLower ''AMD64'' = ''amd64''" "ToLower ''Linux'' = ''linux''" "ToLower ''3.10'' = ''3.10''"
  by code_simp+

lemma CreateRepoJson_docker:
  "CreateRepoJson E docker_user_agent =
     [(''last_update'', JNum (time_Now E)), (''docker_go_version'', JStr ''1.3''),
      (''arch'', JStr ''amd64''), (''kernel'', JStr ''3.10''), (''os'', JStr ''linux'')]"
  unfolding CreateRepoJson_def ua_tokens
  by (simp add: ToLower_examples)

text \<open>
  What a PutTag of \<open>latest\<close> with that user agent writes, when the tag write and the
  marshalling succeed: the marshalled object of \<open>CreateRepoJson\<close>.
\<close>

lemma PutRepoTag_latest_writes:
  assumes "\<not> req_body_fails r" and "req_body r \<noteq> []"
    and "Storage_Exists s (ImageJsonPath (req_body r))"
    and "\<not> faulty s OpPut (RepoTagPath namespace repo ''latest'')"
    and "\<not> faulty s OpPut (RepoJsonPath namespace repo)"
    and "Header_values (req_headers r) ''User-Agent'' = [docker_user_agent]"
    and "json_Marshal E (JObj (CreateRepoJson E docker_user_agent)) = Some jsonData"
  shows "blobs (fst (PutRepoTagHandler E namespace repo ''latest'' s r))
           (RepoJsonPath namespace repo) = Some jsonData \<and>
         status (snd (PutRepoTagHandler E namespace repo ''latest'' s r)) = 200"
  using assms
  by (simp add: PutRepoTagHandler_def Let_def Storage_Put_def respond_def)

text \<open>
  C8. For the user agent \<open>docker/1.2 go/1.3 arch/AMD64 os/Linux kernel/3.10\<close> the
  metadata object has \<open>last_update\<close> (the current Unix second), \<open>docker_go_version\<close>
  \<open>1.3\<close>, \<open>arch\<close> \<open>amd64\<close>, \<open>kernel\<close> \<open>3.10\<close> and \<open>os\<close> \<open>linux\<close>, and no
  \<open>docker_version\<close>: the token \<open>docker/1.2\<close> is kept under the key \<open>docker\<close>, and the
  code looks for the key \<open>docker_version\<close>.
\<close>

theorem CreateRepoJson_no_docker_version:
  "map_of (CreateRepoJson E docker_user_agent) ''docker_version'' = None \<and>
   map_of (uaMap_loop [] (FindAllStringSubmatch docker_user_agent)) ''docker'' = Some ''1.2'' \<and>
   map_of (CreateRepoJson E docker_user_agent) ''docker_go_version'' = Some (JStr ''1.3'') \<and>
   map_of (CreateRepoJson E docker_user_agent) ''arch'' = Some (JStr ''amd64'') \<and>
   map_of (CreateRepoJson E docker_user_agent) ''os'' = Some (JStr ''linux'') \<and>
   map_of (CreateRepoJson E docker_user_agent) ''kernel'' = Some (JStr ''3.10'') \<and>
   map_of (CreateRepoJson E docker_user_agent) ''last_update'' = Some (JNum (time_Now E))"
  by (simp add: CreateRepoJson_docker ua_tokens)

section \<open>Caching headers\<close>

lemma Format_from_skip:
  "Format_from t (numeral n) (c # cs) = Format_from t (pred_numeral n) cs"
  by (simp add: numeral_eq_Suc)

text \<open>
  What \<open>Format\<close> makes of the layout of \<open>DefaultCacheHeaders\<close>, whatever the time: only
  the month of the time enters, three times; the weekday, the day of the month, the
  last three digits of the year and the time of day are the layout's own characters.
\<close>

lemma Expires_layout:
  "time_Format t ''Thu, 01 Jan 1970 00:00:00 GMT'' =
     ''Thu, '' @ pad_int 2 (month (civil_of_unix t)) @ '' ''
       @ take 3 (longMonthNames ! nat (month (civil_of_unix t) - 1)) @ '' ''
       @ fmt_d (month (civil_of_unix t)) @ ''970 00:00:00 GMT''"
  by (simp add: time_Format_def nextStdChunk_def HasPrefix_def startsWithLowerCase_def
      Format_from_skip less_eq_char_def)

lemma month_jan: "month (civil_of_unix 1452816000) = 1"
  by code_simp

lemma month_oct: "month (civil_of_unix 1824940800) = 10"
  by code_simp

lemma digit_chars:
  "char_of (48::nat) = CHR ''0''" "char_of (49::nat) = CHR ''1''" "char_of (50::nat) = CHR ''2''"
  "char_of (51::nat) = CHR ''3''" "char_of (52::nat) = CHR ''4''" "char_of (53::nat) = CHR ''5''"
  "char_of (54::nat) = CHR ''6''" "char_of (55::nat) = CHR ''7''" "char_of (56::nat) = CHR ''8''"
  "char_of (57::nat) = CHR ''9''"
  by code_simp+

lemma fmt_d_1: "fmt_d 1 = ''1''"
  by (simp add: fmt_d_def digit_chars)

lemma fmt_d_10: "fmt_d 10 = ''10''"
  by (simp add: fmt_d_def digit_chars)

lemma max_age: "fmt_d (365 * 24 * 3600) = ''31536000''"
  by (simp add: fmt_d_def digit_chars)

text \<open>
  The parts of the claim that hold: the \<open>Cache-Control\<close> and \<open>Last-Modified\<close> values,
  and a request with an \<open>If-Modified-Since\<close> header is answered 304 with the store
  untouched and the wrapped handler not consulted.
\<close>

lemma DefaultCacheHeaders_fixed:
  "map_of (DefaultCacheHeaders E) ''Cache-Control'' = Some [''public, max-age=31536000''] \<and>
   map_of (DefaultCacheHeaders E) ''Last-Modified'' = Some [''Thu, 01 Jan 1970 00:00:00 GMT'']"
  unfolding DefaultCacheHeaders_def max_age by simp

lemma CheckIfModifiedSince_304:
  assumes "Header_values (req_headers r) ''If-Modified-Since'' \<noteq> []"
  shows "CheckIfModifiedSince E handler s r =
           (s, respond [] (Flag True) 304 (DefaultCacheHeaders E))"
  using assms by (simp add: CheckIfModifiedSince_def)

lemma GetImageAncestry_headers:
  assumes "Storage_Get s (ImageAncestryPath imageID) = Inr d"
    and "\<not> Storage_Exists s (ImageMarkPath imageID)"
    and "Header_values (req_headers r) ''If-Modified-Since'' = []"
  shows "CheckIfModifiedSince E (RequireCompletion imageID (GetImageAncestryHandler E imageID)) s r
           = (s, respond [] (Data d) 200 (DefaultCacheHeaders E))"
  using assms
  by (simp add: CheckIfModifiedSince_def RequireCompletion_def GetImageAncestryHandler_def)

lemma Expires_in_October:
  "map_of (DefaultCacheHeaders (E\<lparr>time_Now := 1793404800\<rparr>)) ''Expires'' =
     Some [''Thu, 10 Oct 10970 00:00:00 GMT'']"
  unfolding DefaultCacheHeaders_def Expires_layout max_age
  by (simp add: month_oct fmt_d_10 pad_int_def longMonthNames_def)

text \<open>
  C9. For a request handled on 15 January 2015, 00:00:00 UTC (Unix second 1421280000),
  the headers of \<open>DefaultCacheHeaders\<close> are these: \<open>Expires\<close> is the epoch, the same text
  as \<open>Last-Modified\<close>, not a date in the future.
\<close>

theorem DefaultCacheHeaders_in_January:
  "DefaultCacheHeaders (E\<lparr>time_Now := 1421280000\<rparr>) =
     [(''Cache-Control'', [''public, max-age=31536000'']),
      (''Expires'', [''Thu, 01 Jan 1970 00:00:00 GMT'']),
      (''Last-Modified'', [''Thu, 01 Jan 1970 00:00:00 GMT''])]"
  unfolding DefaultCacheHeaders_def Expires_layout max_age
  by (simp add: month_jan fmt_d_1 pad_int_def longMonthNames_def)

end
